theory Spec2Isabelle
  imports Complex_Main
begin

section \<open>The live tour screen: data\<close>

text \<open>
  A shallow embedding of \<^verbatim>\<open>src/src/components/LiveTourScreen.jsx\<close>: the
  component's state (its \<^verbatim>\<open>useState\<close> cells and the five audio element refs), its
  event handlers and its effects. JavaScript numbers are modelled as mathematical numbers:
  coordinates, distances and playback positions are \<^typ>\<open>real\<close>, stop indices are
  \<^typ>\<open>int\<close>. A handler or an effect body is a function from the rendered state to the
  list of setter calls and side effects it makes, in source order; React applies the queued
  setter calls after all handlers of the pass have run.
\<close>

datatype segment = Greeting | Approaching | Arrived | Narration | Ending

text \<open>A tour stop; only the coordinates matter here. \<open>None\<close> is a missing field.\<close>

record stop =
  lat :: "real option"
  lng :: "real option"

text \<open>The two kinds of callback the component passes to \<^verbatim>\<open>setTimeout\<close>.\<close>

datatype timer = BannerClear | StartNarration

text \<open>
  The argument of \<^verbatim>\<open>handleSkip\<close>: a number, or something whose \<^verbatim>\<open>typeof\<close> is not
  \<^verbatim>\<open>"number"\<close> (the fast-forward button passes its click event).
\<close>

datatype jsarg = Number int | NotANumber

record state =
  allStops :: "stop list"
  activeStop :: int
  isPlaying :: bool
  visitedStops :: "int list"
  hasPlayedGreeting :: bool
  banner :: "string option"
  currentAudio :: "segment option"
  userLocation :: "(real \<times> real) option"
  greetingAudio :: "real option"
  approachAudio :: "real option"
  arriveAudio :: "real option"
  narrationAudio :: "real option"
  endingAudio :: "real option"
  canVibrate :: bool
  approachEndedListener :: bool
  arrivedEndedListener :: bool
  timers :: "timer list"

text \<open>
  The five \<open>...Audio\<close> fields are the \<^verbatim>\<open>currentTime\<close> of the audio element behind each
  ref, \<open>None\<close> while \<^verbatim>\<open>ref.current\<close> is null. \<open>canVibrate\<close> is whether
  \<^verbatim>\<open>window.navigator.vibrate\<close> exists. The two listener flags say whether the mount
  effects of lines 260-291 found their audio element and attached an \<^verbatim>\<open>ended\<close>
  listener. \<open>timers\<close> are the pending \<^verbatim>\<open>setTimeout\<close> callbacks; the source never calls
  \<^verbatim>\<open>clearTimeout\<close>.
\<close>

datatype update =
    SetAllStops "stop list"
  | SetActiveStop int
  | SetIsPlaying bool
  | SetVisitedStops "int list"
  | AppendVisited int
  | SetHasPlayedGreeting bool
  | SetBanner "string option"
  | SetCurrentAudio "segment option"
  | SetUserLocation "(real \<times> real) option"
  | Rewind segment
  | Vibrate nat
  | SetTimeout timer nat
  | Log string
  | LogDist real
  | MountAudio

section \<open>Constants and helpers\<close>

definition VISITED_THRESHOLD_SECONDS :: real where
  "VISITED_THRESHOLD_SECONDS = 60"

definition APPROACH_DISTANCE :: real where
  "APPROACH_DISTANCE = 60"

definition ARRIVE_DISTANCE :: real where
  "ARRIVE_DISTANCE = 18"

definition AUDIO_DELAY :: nat where
  "AUDIO_DELAY = 10000"

definition BANNER_TIMEOUT :: nat where
  "BANNER_TIMEOUT = 15000"

text \<open>
  The two banner texts. The apostrophe of the arrive banner is U+2019 in the source, here
  its three UTF-8 bytes.
\<close>

definition ARRIVE_BANNER :: string where
  "ARRIVE_BANNER = ''You'' @ [CHR 0xE2, CHR 0x80, CHR 0x99] @ ''re here! Ready to hear the story?''"

definition APPROACH_BANNER :: string where
  "APPROACH_BANNER = ''Almost there! Come a bit closer to hear the story.''"

definition toRad :: "real \<Rightarrow> real" where
  "toRad x = (x * pi) / 180"

definition getDistanceMeters :: "real \<Rightarrow> real \<Rightarrow> real \<Rightarrow> real \<Rightarrow> real" where
  "getDistanceMeters lat1 lng1 lat2 lng2 =
     (let R = 6371000;
          dLat = toRad (lat2 - lat1);
          dLng = toRad (lng2 - lng1);
          a = (sin (dLat / 2))\<^sup>2 + cos (toRad lat1) * cos (toRad lat2) * (sin (dLng / 2))\<^sup>2
      in R * 2 * arcsin (sqrt a))"

definition isRealStop :: "int \<Rightarrow> stop list \<Rightarrow> bool" where
  "isRealStop idx stops \<longleftrightarrow> idx > 0 \<and> idx < int (length stops) - 1"

text \<open>
  JavaScript truthiness of a coordinate read from the tour's JSON: a missing field and the
  number 0 are falsy.
\<close>

definition truthy :: "real option \<Rightarrow> bool" where
  "truthy v = (case v of None \<Rightarrow> False | Some x \<Rightarrow> x \<noteq> 0)"

definition num :: "real option \<Rightarrow> real" where
  "num v = (case v of None \<Rightarrow> 0 | Some x \<Rightarrow> x)"

section \<open>Setter calls and side effects\<close>

fun applyUpdate :: "update \<Rightarrow> state \<Rightarrow> state" where
  "applyUpdate (SetAllStops xs) s = s\<lparr>allStops := xs\<rparr>"
| "applyUpdate (SetActiveStop i) s = s\<lparr>activeStop := i\<rparr>"
| "applyUpdate (SetIsPlaying b) s = s\<lparr>isPlaying := b\<rparr>"
| "applyUpdate (SetVisitedStops xs) s = s\<lparr>visitedStops := xs\<rparr>"
| "applyUpdate (AppendVisited i) s =
     s\<lparr>visitedStops := (if i \<in> set (visitedStops s) then visitedStops s else visitedStops s @ [i])\<rparr>"
| "applyUpdate (SetHasPlayedGreeting b) s = s\<lparr>hasPlayedGreeting := b\<rparr>"
| "applyUpdate (SetBanner m) s = s\<lparr>banner := m\<rparr>"
| "applyUpdate (SetCurrentAudio a) s = s\<lparr>currentAudio := a\<rparr>"
| "applyUpdate (SetUserLocation l) s = s\<lparr>userLocation := l\<rparr>"
| "applyUpdate (Rewind Greeting) s = s\<lparr>greetingAudio := map_option (\<lambda>_. 0) (greetingAudio s)\<rparr>"
| "applyUpdate (Rewind Approaching) s = s\<lparr>approachAudio := map_option (\<lambda>_. 0) (approachAudio s)\<rparr>"
| "applyUpdate (Rewind Arrived) s = s\<lparr>arriveAudio := map_option (\<lambda>_. 0) (arriveAudio s)\<rparr>"
| "applyUpdate (Rewind Narration) s = s\<lparr>narrationAudio := map_option (\<lambda>_. 0) (narrationAudio s)\<rparr>"
| "applyUpdate (Rewind Ending) s = s\<lparr>endingAudio := map_option (\<lambda>_. 0) (endingAudio s)\<rparr>"
| "applyUpdate (Vibrate n) s = s"
| "applyUpdate (SetTimeout tm ms) s = s\<lparr>timers := timers s @ [tm]\<rparr>"
| "applyUpdate (Log msg) s = s"
| "applyUpdate (LogDist d) s = s"
| "applyUpdate MountAudio s =
     s\<lparr>greetingAudio := Some 0, approachAudio := Some 0, arriveAudio := Some 0,
       narrationAudio := Some 0, endingAudio := Some 0\<rparr>"

definition run :: "update list \<Rightarrow> state \<Rightarrow> state" where
  "run us s = fold applyUpdate us s"

text \<open>\<^verbatim>\<open>if (window.navigator.vibrate) window.navigator.vibrate(ms)\<close>\<close>

definition vibrate :: "state \<Rightarrow> nat \<Rightarrow> update list" where
  "vibrate s ms = (if canVibrate s then [Vibrate ms] else [])"

section \<open>Event handlers\<close>

text \<open>\<^verbatim>\<open>handlePlay\<close>, lines 120-131.\<close>

definition handlePlay :: "state \<Rightarrow> update list" where
  "handlePlay s =
     (if \<not> isPlaying s then
        (if currentAudio s = None then
           (if activeStop s = 0 then [SetCurrentAudio (Some Greeting)]
            else if activeStop s = int (length (allStops s)) - 1 then [SetCurrentAudio (Some Ending)]
            else [SetCurrentAudio (Some Narration)])
         else [])
        @ [SetIsPlaying True]
      else [SetIsPlaying False])"

text \<open>\<^verbatim>\<open>handleSkip\<close>, lines 134-145.\<close>

definition handleSkip :: "jsarg \<Rightarrow> state \<Rightarrow> update list" where
  "handleSkip targetIndex s =
     (case targetIndex of
        Number t \<Rightarrow>
          if t \<ge> 0 \<and> t < int (length (allStops s))
          then [SetActiveStop t, SetCurrentAudio None, SetIsPlaying False]
          else []
      | NotANumber \<Rightarrow> [])"

text \<open>\<^verbatim>\<open>onGreetingEnded\<close>, lines 148-151.\<close>

definition onGreetingEnded :: "state \<Rightarrow> update list" where
  "onGreetingEnded s = [SetHasPlayedGreeting True, SetActiveStop 1]"

text \<open>\<^verbatim>\<open>onApproachEnded\<close>, lines 261-267.\<close>

definition onApproachEnded :: "state \<Rightarrow> update list" where
  "onApproachEnded s =
     [SetCurrentAudio (Some Arrived), SetIsPlaying True, SetBanner (Some APPROACH_BANNER)]
     @ vibrate s 100
     @ [SetTimeout BannerClear BANNER_TIMEOUT]"

text \<open>
  \<^verbatim>\<open>onArrivedEnded\<close>, lines 335-343 (the \<^verbatim>\<open>onEnded\<close> prop of the arrive audio
  element) and, with the same body, lines 277-285 (the listener of the mount effect).
\<close>

definition onArrivedEnded :: "state \<Rightarrow> update list" where
  "onArrivedEnded s =
     [SetBanner (Some ARRIVE_BANNER)]
     @ vibrate s 150
     @ [SetTimeout StartNarration AUDIO_DELAY]"

text \<open>The callbacks given to \<^verbatim>\<open>setTimeout\<close>: lines 230, 237, 266 and lines 280-284, 338-342.\<close>

fun timerCallback :: "timer \<Rightarrow> update list" where
  "timerCallback BannerClear = [SetBanner None]"
| "timerCallback StartNarration = [SetCurrentAudio (Some Narration), SetIsPlaying True, SetBanner None]"

text \<open>
  \<^verbatim>\<open>handleTimeUpdate\<close>, lines 298-307; \<open>t\<close> is \<^verbatim>\<open>audio.currentTime\<close> of the
  narration element.
\<close>

definition handleTimeUpdate :: "real \<Rightarrow> state \<Rightarrow> update list" where
  "handleTimeUpdate t s =
     (if activeStop s \<notin> set (visitedStops s) \<and> t \<ge> VISITED_THRESHOLD_SECONDS
      then [AppendVisited (activeStop s)]
      else [])"

text \<open>The restart button, lines 585-590 (the progress record and the settings panel are not modelled).\<close>

definition restartTour :: "state \<Rightarrow> update list" where
  "restartTour s = [SetVisitedStops [], SetActiveStop 0]"

section \<open>Effects\<close>

text \<open>The autoplay effect, lines 154-255.\<close>

definition autoplayEffect :: "state \<Rightarrow> update list" where
  "autoplayEffect s =
     Log ''[AUTOPLAY EFFECT]'' #
     (if allStops s = [] then [Log ''[AUTOPLAY] allStops not loaded'']
      else if activeStop s = 0 then
        Log ''[AUTOPLAY] On greeting stop'' #
        (if currentAudio s = Some Greeting then []
         else [SetCurrentAudio (Some Greeting), SetIsPlaying False])
      else if activeStop s = int (length (allStops s)) - 1 then
        Log ''[AUTOPLAY] On ending stop'' #
        (if currentAudio s = Some Ending then []
         else [SetCurrentAudio (Some Ending), SetIsPlaying True])
      else if isRealStop (activeStop s) (allStops s) then
        (if activeStop s \<in> set (visitedStops s) then
           Log ''[AUTOPLAY] Revisited stop'' #
           (if currentAudio s = Some Narration then []
            else [SetCurrentAudio (Some Narration), SetIsPlaying False])
         else
           (let stop = allStops s ! nat (activeStop s) in
            if \<not> truthy (lat stop) \<or> \<not> truthy (lng stop) then
              Log ''[AUTOPLAY] Stop has no lat/lng'' #
              (if currentAudio s = Some Narration then []
               else [SetCurrentAudio (Some Narration), SetIsPlaying True])
            else
              (let dist = (case userLocation s of
                             None \<Rightarrow> None
                           | Some (ulat, ulng) \<Rightarrow>
                               Some (getDistanceMeters ulat ulng (num (lat stop)) (num (lng stop))))
               in
               (case dist of None \<Rightarrow> [] | Some d \<Rightarrow> [LogDist d]) @
               (if currentAudio s = Some Approaching \<or> currentAudio s = Some Arrived
                   \<or> currentAudio s = Some Narration
                then [Log ''[AUTOPLAY] Already in a prompt/narration:'']
                else
                  (case dist of
                     Some d \<Rightarrow>
                       if d \<le> ARRIVE_DISTANCE then
                         [Log ''[AUTOPLAY] In ARRIVE range'',
                          SetCurrentAudio (Some Arrived), SetIsPlaying True,
                          SetBanner (Some ARRIVE_BANNER)]
                         @ vibrate s 150
                         @ [SetTimeout BannerClear BANNER_TIMEOUT]
                       else if d \<le> APPROACH_DISTANCE then
                         [Log ''[AUTOPLAY] In APPROACH range'',
                          SetCurrentAudio (Some Approaching), SetIsPlaying True,
                          SetBanner (Some APPROACH_BANNER)]
                         @ vibrate s 100
                         @ [SetTimeout BannerClear BANNER_TIMEOUT]
                       else
                         [Log ''[AUTOPLAY] Out of range, default to narration'',
                          SetCurrentAudio (Some Narration), SetIsPlaying False]
                   | None \<Rightarrow>
                       [Log ''[AUTOPLAY] No dist, default to narration'',
                        SetCurrentAudio (Some Narration), SetIsPlaying True])))))
      else [])"

text \<open>The effect that resets the audio state when the stop changes, lines 346-358.\<close>

definition resetEffect :: "state \<Rightarrow> update list" where
  "resetEffect s =
     [SetIsPlaying False, SetCurrentAudio None]
     @ (if narrationAudio s = None then [] else [Rewind Narration])
     @ (if greetingAudio s = None then [] else [Rewind Greeting])
     @ (if endingAudio s = None then [] else [Rewind Ending])"

section \<open>Events and the render cycle\<close>

text \<open>
  What can happen to the component: the tour data and the saved progress arrive, the
  location watcher reports a position, the user presses a control, an audio element
  fires \<^verbatim>\<open>ended\<close> or the narration element fires \<^verbatim>\<open>timeupdate\<close> at a playback
  position, a pending timer fires.
\<close>

datatype event =
    TourLoaded "stop list"
  | ProgressLoaded "int option" "int list option"
  | LocationUpdate real real
  | PlayPause
  | Skip jsarg
  | SkipPrevious
  | SkipNext
  | FastForward
  | SelectStop int
  | RestartTour
  | Ended segment
  | NarrationTime real
  | TimerFired timer

text \<open>
  The state the component starts from, after its first render and mount effects: nothing
  is loaded, the component renders \<^verbatim>\<open>Loading...\<close> and no audio element, so every ref is
  null and the mount effects of lines 260-291 attach no listener.
\<close>

definition initialState :: "bool \<Rightarrow> state" where
  "initialState vib =
     \<lparr>allStops = [], activeStop = 0, isPlaying = False, visitedStops = [],
      hasPlayedGreeting = False, banner = None, currentAudio = None, userLocation = None,
      greetingAudio = None, approachAudio = None, arriveAudio = None,
      narrationAudio = None, endingAudio = None, canVibrate = vib,
      approachEndedListener = False, arrivedEndedListener = False, timers = []\<rparr>"

text \<open>
  What the event itself changes before any handler runs: the narration element has
  reached the reported position; a timer that fires is no longer pending.
\<close>

fun environment :: "event \<Rightarrow> state \<Rightarrow> state" where
  "environment (NarrationTime t) s = s\<lparr>narrationAudio := map_option (\<lambda>_. t) (narrationAudio s)\<rparr>"
| "environment (TimerFired tm) s = s\<lparr>timers := remove1 tm (timers s)\<rparr>"
| "environment e s = s"

text \<open>
  The setter calls of the handler the source attaches to each event. The greeting and
  ending entries of \<^verbatim>\<open>allStops\<close> carry no coordinates. The \<^verbatim>\<open>timeupdate\<close> listener
  exists only when the effect of lines 294-313 found a real stop and a narration element.
  The list entries that \<^verbatim>\<open>SelectStop\<close> can click are those of \<^verbatim>\<open>allStops\<close>.
\<close>

fun handler :: "event \<Rightarrow> state \<Rightarrow> update list" where
  "handler (TourLoaded stops) s =
     [SetAllStops (\<lparr>lat = None, lng = None\<rparr> # stops @ [\<lparr>lat = None, lng = None\<rparr>]), MountAudio]"
| "handler (ProgressLoaded a v) s =
     [SetActiveStop (case a of None \<Rightarrow> 0 | Some i \<Rightarrow> i),
      SetVisitedStops (case v of None \<Rightarrow> [] | Some xs \<Rightarrow> xs)]"
| "handler (LocationUpdate la lo) s = [SetUserLocation (Some (la, lo))]"
| "handler PlayPause s = handlePlay s"
| "handler (Skip a) s = handleSkip a s"
| "handler SkipPrevious s = handleSkip (Number (max (activeStop s - 1) 0)) s"
| "handler SkipNext s = handleSkip (Number (min (activeStop s + 1) (int (length (allStops s)) - 1))) s"
| "handler FastForward s = handleSkip NotANumber s"
| "handler (SelectStop i) s =
     (if 0 \<le> i \<and> i < int (length (allStops s)) then [SetActiveStop i] else [])"
| "handler RestartTour s = restartTour s"
| "handler (Ended Greeting) s = onGreetingEnded s"
| "handler (Ended Approaching) s = (if approachEndedListener s then onApproachEnded s else [])"
| "handler (Ended Arrived) s =
     onArrivedEnded s @ (if arrivedEndedListener s then onArrivedEnded s else [])"
| "handler (Ended Narration) s = [SetIsPlaying False]"
| "handler (Ended Ending) s = [SetIsPlaying False]"
| "handler (NarrationTime t) s =
     (if isRealStop (activeStop s) (allStops s) \<and> narrationAudio s \<noteq> None
      then handleTimeUpdate t s else [])"
| "handler (TimerFired tm) s = (if tm \<in> set (timers s) then timerCallback tm else [])"

text \<open>
  An effect runs after a render when one of its dependencies differs from the previous
  render. Objects and arrays are compared by identity: the events below store a freshly
  built object or array, which differs from the previous one whatever it holds. The
  effects themselves store only primitive values.
\<close>

fun freshObject :: "event \<Rightarrow> bool" where
  "freshObject (TourLoaded stops) = True"
| "freshObject (ProgressLoaded a v) = True"
| "freshObject (LocationUpdate la lo) = True"
| "freshObject RestartTour = True"
| "freshObject e = False"

definition autoplayDepsSame :: "state \<Rightarrow> state \<Rightarrow> bool" where
  "autoplayDepsSame prev cur \<longleftrightarrow>
     activeStop prev = activeStop cur \<and> allStops prev = allStops cur
     \<and> userLocation prev = userLocation cur \<and> visitedStops prev = visitedStops cur
     \<and> currentAudio prev = currentAudio cur"

definition resetDepsSame :: "state \<Rightarrow> state \<Rightarrow> bool" where
  "resetDepsSame prev cur \<longleftrightarrow> activeStop prev = activeStop cur"

text \<open>
  One pass of effects after a render of \<open>cur\<close> that follows a render of \<open>prev\<close>: the
  effects whose dependencies changed run in source order (autoplay, lines 154-255, before
  reset, lines 346-358), all of them reading the rendered state \<open>cur\<close>; their setter calls
  are queued and applied in order afterwards. The effects left out set no state of the
  component and touch no playback position.
\<close>

definition effectsPass :: "bool \<Rightarrow> state \<Rightarrow> state \<Rightarrow> update list" where
  "effectsPass fresh prev cur =
     (if fresh then autoplayEffect cur
      else if autoplayDepsSame prev cur then []
      else autoplayEffect cur)
     @ (if resetDepsSame prev cur then [] else resetEffect cur)"

definition quiescent :: "bool \<Rightarrow> state \<Rightarrow> state \<Rightarrow> bool" where
  "quiescent fresh prev cur \<longleftrightarrow>
     (if fresh then False else autoplayDepsSame prev cur \<and> resetDepsSame prev cur)"

text \<open>
  Renders and effect passes repeat until a render changes no dependency. The first
  argument bounds the number of passes; \<open>None\<close> means the bound was too small.
\<close>

fun settle :: "nat \<Rightarrow> bool \<Rightarrow> state \<Rightarrow> state \<Rightarrow> state option" where
  "settle 0 fresh prev cur = None"
| "settle (Suc n) fresh prev cur =
     (if quiescent fresh prev cur then Some cur
      else settle n False cur (run (effectsPass fresh prev cur) cur))"

definition step :: "nat \<Rightarrow> event \<Rightarrow> state \<Rightarrow> state option" where
  "step fuel e s =
     (let s0 = environment e s
      in settle fuel (freshObject e) s0 (run (handler e s) s0))"

text \<open>The state right after the first pass of effects that follows an event.\<close>

definition afterFirstPass :: "event \<Rightarrow> state \<Rightarrow> state" where
  "afterFirstPass e s =
     (let s0 = environment e s; s1 = run (handler e s) s0
      in run (effectsPass (freshObject e) s0 s1) s1)"

section \<open>Normal operation and a sample tour\<close>

text \<open>
  Normal operation is every event but the two that replace the visited list wholesale:
  restoring the saved progress when the tour loads, and the restart button.
\<close>

fun normalOperation :: "event \<Rightarrow> bool" where
  "normalOperation (ProgressLoaded a v) = False"
| "normalOperation RestartTour = False"
| "normalOperation e = True"

text \<open>
  A tour of three real stops between the greeting and the ending, the third on the
  equator, and the state of the component once that tour is loaded.
\<close>

definition demoStops :: "stop list" where
  "demoStops =
     [\<lparr>lat = None, lng = None\<rparr>, \<lparr>lat = Some 1, lng = Some 2\<rparr>, \<lparr>lat = Some 3, lng = Some 4\<rparr>,
      \<lparr>lat = Some 0, lng = Some 5\<rparr>, \<lparr>lat = None, lng = None\<rparr>]"

definition tourState :: state where
  "tourState =
     \<lparr>allStops = demoStops, activeStop = 0, isPlaying = False, visitedStops = [],
      hasPlayedGreeting = False, banner = None, currentAudio = Some Greeting, userLocation = None,
      greetingAudio = Some 0, approachAudio = Some 0, arriveAudio = Some 0,
      narrationAudio = Some 0, endingAudio = Some 0, canVibrate = True,
      approachEndedListener = False, arrivedEndedListener = False, timers = []\<rparr>"

section \<open>The distance function\<close>

text \<open>
  Two points on the same meridian, at most 180 degrees apart, are at the distance of the
  arc between them; this gives sample distances in each proximity zone.
\<close>

lemma toRad_diff_swap: "toRad (a - b) = - toRad (b - a)"
proof -
  have "a - b = - (b - a)"
    by simp
  then have "(a - b) * pi = - ((b - a) * pi)"
    by (simp only: mult_minus_left)
  then show ?thesis
    by (simp add: toRad_def)
qed

lemma sin_half_sq_swap: "(sin (toRad (a - b) / 2))\<^sup>2 = (sin (toRad (b - a) / 2))\<^sup>2"
proof -
  have "sin (toRad (a - b) / 2) = - sin (toRad (b - a) / 2)"
    by (simp add: toRad_diff_swap [of a b])
  then show ?thesis
    by simp
qed

lemma getDistanceMeters_same: "getDistanceMeters la oa la oa = 0"
  by (simp add: getDistanceMeters_def toRad_def)

lemma getDistanceMeters_swap: "getDistanceMeters la oa lb ob = getDistanceMeters lb ob la oa"
proof -
  have "(sin (toRad (lb - la) / 2))\<^sup>2 + cos (toRad la) * cos (toRad lb) * (sin (toRad (ob - oa) / 2))\<^sup>2
      = (sin (toRad (la - lb) / 2))\<^sup>2 + cos (toRad lb) * cos (toRad la) * (sin (toRad (oa - ob) / 2))\<^sup>2"
    by (simp add: sin_half_sq_swap [of lb la] sin_half_sq_swap [of ob oa] mult.commute)
  then show ?thesis
    by (simp add: getDistanceMeters_def Let_def)
qed

lemma getDistanceMeters_meridian:
  assumes "la \<le> lb" "lb - la \<le> 180"
  shows "getDistanceMeters la lo lb lo = 6371000 * toRad (lb - la)"
proof -
  define x where "x = toRad (lb - la) / 2"
  have x0: "0 \<le> x"
    using assms by (simp add: x_def toRad_def)
  have "(lb - la) * pi \<le> 180 * pi"
    using assms by (simp add: mult_right_mono)
  then have x1: "x \<le> pi / 2"
    by (simp add: x_def toRad_def)
  have "0 \<le> sin x"
    using x0 x1 by (intro sin_ge_zero) (auto intro: order_trans [of x "pi / 2" pi])
  then have "sqrt ((sin x)\<^sup>2) = sin x"
    by simp
  moreover have "arcsin (sin x) = x"
    using x0 x1 by (intro arcsin_sin) auto
  ultimately show ?thesis
    by (simp add: getDistanceMeters_def Let_def x_def [symmetric] toRad_def [of 0]) (simp add: x_def)
qed

lemma distance_approach_sample: "18 < getDistanceMeters 1 2 (10003 / 10000) 2 \<and> getDistanceMeters 1 2 (10003 / 10000) 2 \<le> 60"
proof -
  have d: "getDistanceMeters 1 2 (10003 / 10000) 2 = 6371000 * toRad (3 / 10000)"
    using getDistanceMeters_meridian [of 1 "10003 / 10000" 2] by simp
  have "2 \<le> pi" "pi < 4"
    using pi_ge_two pi_less_4 by simp_all
  then show ?thesis
    unfolding d by (simp add: toRad_def)
qed

lemma distance_far_sample: "60 < getDistanceMeters 1 2 (101 / 100) 2"
proof -
  have d: "getDistanceMeters 1 2 (101 / 100) 2 = 6371000 * toRad (1 / 100)"
    using getDistanceMeters_meridian [of 1 "101 / 100" 2] by simp
  have "2 \<le> pi"
    using pi_ge_two by simp
  then show ?thesis
    unfolding d by (simp add: toRad_def)
qed

section \<open>Running setter calls\<close>

lemma run_Nil [simp]: "run [] s = s"
  by (simp add: run_def)

lemma run_Cons [simp]: "run (u # us) s = run us (applyUpdate u s)"
  by (simp add: run_def)

lemma run_append [simp]: "run (us @ vs) s = run vs (run us s)"
  by (simp add: run_def)

lemma run_vibrate [simp]: "run (vibrate s ms) s' = s'"
  by (simp add: vibrate_def)

section \<open>The branches of the autoplay effect\<close>

text \<open>
  What the autoplay effect does on each of its paths, in the order of the source: tour not
  loaded, greeting stop, ending stop, real stop already visited, real stop without usable
  coordinates, real stop with coordinates and a known or unknown location, and an index
  outside the sequence.
\<close>

lemma autoplay_unloaded: "allStops s = [] \<Longrightarrow> autoplayEffect s = [Log ''[AUTOPLAY EFFECT]'', Log ''[AUTOPLAY] allStops not loaded'']"
  by (simp add: autoplayEffect_def)

lemma autoplay_greeting:
  "allStops s \<noteq> [] \<Longrightarrow> activeStop s = 0 \<Longrightarrow>
   autoplayEffect s = Log ''[AUTOPLAY EFFECT]'' # Log ''[AUTOPLAY] On greeting stop'' #
     (if currentAudio s = Some Greeting then [] else [SetCurrentAudio (Some Greeting), SetIsPlaying False])"
  by (simp add: autoplayEffect_def)

lemma autoplay_ending:
  "allStops s \<noteq> [] \<Longrightarrow> activeStop s \<noteq> 0 \<Longrightarrow> activeStop s = int (length (allStops s)) - 1 \<Longrightarrow>
   autoplayEffect s = Log ''[AUTOPLAY EFFECT]'' # Log ''[AUTOPLAY] On ending stop'' #
     (if currentAudio s = Some Ending then [] else [SetCurrentAudio (Some Ending), SetIsPlaying True])"
  by (simp add: autoplayEffect_def)

lemma autoplay_visited:
  "isRealStop (activeStop s) (allStops s) \<Longrightarrow> activeStop s \<in> set (visitedStops s) \<Longrightarrow>
   autoplayEffect s = Log ''[AUTOPLAY EFFECT]'' # Log ''[AUTOPLAY] Revisited stop'' #
     (if currentAudio s = Some Narration then [] else [SetCurrentAudio (Some Narration), SetIsPlaying False])"
  by (auto simp add: autoplayEffect_def isRealStop_def)

lemma autoplay_nocoords:
  "isRealStop (activeStop s) (allStops s) \<Longrightarrow> activeStop s \<notin> set (visitedStops s) \<Longrightarrow>
   \<not> (truthy (lat (allStops s ! nat (activeStop s))) \<and> truthy (lng (allStops s ! nat (activeStop s)))) \<Longrightarrow>
   autoplayEffect s = Log ''[AUTOPLAY EFFECT]'' # Log ''[AUTOPLAY] Stop has no lat/lng'' #
     (if currentAudio s = Some Narration then [] else [SetCurrentAudio (Some Narration), SetIsPlaying True])"
  by (auto simp add: autoplayEffect_def isRealStop_def Let_def)

lemma autoplay_coords:
  "isRealStop (activeStop s) (allStops s) \<Longrightarrow> activeStop s \<notin> set (visitedStops s) \<Longrightarrow>
   lat (allStops s ! nat (activeStop s)) = Some la \<Longrightarrow> lng (allStops s ! nat (activeStop s)) = Some lo \<Longrightarrow>
   la \<noteq> 0 \<Longrightarrow> lo \<noteq> 0 \<Longrightarrow> userLocation s = Some (ula, ulo) \<Longrightarrow> d = getDistanceMeters ula ulo la lo \<Longrightarrow>
   autoplayEffect s = Log ''[AUTOPLAY EFFECT]'' # LogDist d #
     (if currentAudio s = Some Approaching \<or> currentAudio s = Some Arrived \<or> currentAudio s = Some Narration
      then [Log ''[AUTOPLAY] Already in a prompt/narration:'']
      else if d \<le> 18 then
        [Log ''[AUTOPLAY] In ARRIVE range'', SetCurrentAudio (Some Arrived), SetIsPlaying True,
         SetBanner (Some ARRIVE_BANNER)] @ vibrate s 150 @ [SetTimeout BannerClear 15000]
      else if d \<le> 60 then
        [Log ''[AUTOPLAY] In APPROACH range'', SetCurrentAudio (Some Approaching), SetIsPlaying True,
         SetBanner (Some APPROACH_BANNER)] @ vibrate s 100 @ [SetTimeout BannerClear 15000]
      else [Log ''[AUTOPLAY] Out of range, default to narration'', SetCurrentAudio (Some Narration), SetIsPlaying False])"
  by (auto simp add: autoplayEffect_def isRealStop_def Let_def truthy_def num_def
      ARRIVE_DISTANCE_def APPROACH_DISTANCE_def BANNER_TIMEOUT_def)

lemma autoplay_nolocation:
  "isRealStop (activeStop s) (allStops s) \<Longrightarrow> activeStop s \<notin> set (visitedStops s) \<Longrightarrow>
   truthy (lat (allStops s ! nat (activeStop s))) \<Longrightarrow> truthy (lng (allStops s ! nat (activeStop s))) \<Longrightarrow>
   userLocation s = None \<Longrightarrow>
   autoplayEffect s = Log ''[AUTOPLAY EFFECT]'' #
     (if currentAudio s = Some Approaching \<or> currentAudio s = Some Arrived \<or> currentAudio s = Some Narration
      then [Log ''[AUTOPLAY] Already in a prompt/narration:'']
      else [Log ''[AUTOPLAY] No dist, default to narration'', SetCurrentAudio (Some Narration), SetIsPlaying True])"
  by (auto simp add: autoplayEffect_def isRealStop_def Let_def)

lemma autoplay_elsewhere:
  "allStops s \<noteq> [] \<Longrightarrow> activeStop s \<noteq> 0 \<Longrightarrow> activeStop s \<noteq> int (length (allStops s)) - 1 \<Longrightarrow>
   \<not> isRealStop (activeStop s) (allStops s) \<Longrightarrow> autoplayEffect s = [Log ''[AUTOPLAY EFFECT]'']"
  by (simp add: autoplayEffect_def)

lemma autoplay_narration_stays:
  assumes real: "isRealStop (activeStop s) (allStops s)"
    and narr: "currentAudio s = Some Narration"
  shows "run (autoplayEffect s) s = s"
proof (cases "activeStop s \<in> set (visitedStops s)")
  case True
  then show ?thesis
    using real narr by (simp add: autoplay_visited)
next
  case False
  note fresh = this
  show ?thesis
  proof (cases "truthy (lat (allStops s ! nat (activeStop s))) \<and> truthy (lng (allStops s ! nat (activeStop s)))")
    case False
    then show ?thesis
      using real narr fresh autoplay_nocoords [of s] by simp
  next
    case True
    then obtain la lo where c: "lat (allStops s ! nat (activeStop s)) = Some la" "la \<noteq> 0"
      "lng (allStops s ! nat (activeStop s)) = Some lo" "lo \<noteq> 0"
      by (auto simp add: truthy_def split: option.splits)
    show ?thesis
    proof (cases "userLocation s")
      case None
      then show ?thesis
        using real narr fresh True autoplay_nolocation [of s] by simp
    next
      case (Some u)
      then obtain ula ulo where "userLocation s = Some (ula, ulo)"
        by (cases u) simp
      then show ?thesis
        using real narr fresh c autoplay_coords [of s la lo ula ulo "getDistanceMeters ula ulo la lo"]
        by simp
    qed
  qed
qed

section \<open>What the effects and handlers leave alone\<close>

lemma autoplay_frame:
  "activeStop (run (autoplayEffect x) s) = activeStop s
   \<and> allStops (run (autoplayEffect x) s) = allStops s
   \<and> userLocation (run (autoplayEffect x) s) = userLocation s
   \<and> visitedStops (run (autoplayEffect x) s) = visitedStops s
   \<and> greetingAudio (run (autoplayEffect x) s) = greetingAudio s
   \<and> approachAudio (run (autoplayEffect x) s) = approachAudio s
   \<and> arriveAudio (run (autoplayEffect x) s) = arriveAudio s
   \<and> narrationAudio (run (autoplayEffect x) s) = narrationAudio s
   \<and> endingAudio (run (autoplayEffect x) s) = endingAudio s
   \<and> approachEndedListener (run (autoplayEffect x) s) = approachEndedListener s
   \<and> arrivedEndedListener (run (autoplayEffect x) s) = arrivedEndedListener s
   \<and> canVibrate (run (autoplayEffect x) s) = canVibrate s
   \<and> hasPlayedGreeting (run (autoplayEffect x) s) = hasPlayedGreeting s"
  by (simp add: autoplayEffect_def Let_def split: option.split prod.split)

lemma reset_frame:
  "activeStop (run (resetEffect x) s) = activeStop s
   \<and> allStops (run (resetEffect x) s) = allStops s
   \<and> userLocation (run (resetEffect x) s) = userLocation s
   \<and> visitedStops (run (resetEffect x) s) = visitedStops s
   \<and> approachAudio (run (resetEffect x) s) = approachAudio s
   \<and> arriveAudio (run (resetEffect x) s) = arriveAudio s
   \<and> approachEndedListener (run (resetEffect x) s) = approachEndedListener s
   \<and> arrivedEndedListener (run (resetEffect x) s) = arrivedEndedListener s
   \<and> canVibrate (run (resetEffect x) s) = canVibrate s
   \<and> hasPlayedGreeting (run (resetEffect x) s) = hasPlayedGreeting s
   \<and> banner (run (resetEffect x) s) = banner s
   \<and> timers (run (resetEffect x) s) = timers s"
  by (simp add: resetEffect_def)

lemma reset_result:
  "currentAudio (run (resetEffect x) s) = None
   \<and> isPlaying (run (resetEffect x) s) = False
   \<and> narrationAudio (run (resetEffect x) s) = (if narrationAudio x = None then narrationAudio s else map_option (\<lambda>_. 0) (narrationAudio s))
   \<and> greetingAudio (run (resetEffect x) s) = (if greetingAudio x = None then greetingAudio s else map_option (\<lambda>_. 0) (greetingAudio s))
   \<and> endingAudio (run (resetEffect x) s) = (if endingAudio x = None then endingAudio s else map_option (\<lambda>_. 0) (endingAudio s))"
  by (simp add: resetEffect_def)

lemma pass_frame:
  "activeStop (run (effectsPass f p c) c) = activeStop c
   \<and> allStops (run (effectsPass f p c) c) = allStops c
   \<and> userLocation (run (effectsPass f p c) c) = userLocation c
   \<and> visitedStops (run (effectsPass f p c) c) = visitedStops c
   \<and> approachAudio (run (effectsPass f p c) c) = approachAudio c
   \<and> arriveAudio (run (effectsPass f p c) c) = arriveAudio c
   \<and> approachEndedListener (run (effectsPass f p c) c) = approachEndedListener c
   \<and> arrivedEndedListener (run (effectsPass f p c) c) = arrivedEndedListener c
   \<and> canVibrate (run (effectsPass f p c) c) = canVibrate c
   \<and> hasPlayedGreeting (run (effectsPass f p c) c) = hasPlayedGreeting c"
  by (simp add: effectsPass_def autoplay_frame reset_frame)

lemma timerCallback_frame:
  "activeStop (run (timerCallback tm) s) = activeStop s
   \<and> visitedStops (run (timerCallback tm) s) = visitedStops s
   \<and> approachAudio (run (timerCallback tm) s) = approachAudio s
   \<and> arriveAudio (run (timerCallback tm) s) = arriveAudio s"
  by (cases tm) simp_all

lemma timerCallback_listeners:
  "approachEndedListener (run (timerCallback tm) s) = approachEndedListener s
   \<and> arrivedEndedListener (run (timerCallback tm) s) = arrivedEndedListener s"
  by (cases tm) simp_all

lemma environment_frame:
  "activeStop (environment e s) = activeStop s \<and> allStops (environment e s) = allStops s
   \<and> visitedStops (environment e s) = visitedStops s \<and> approachAudio (environment e s) = approachAudio s
   \<and> arriveAudio (environment e s) = arriveAudio s \<and> currentAudio (environment e s) = currentAudio s
   \<and> isPlaying (environment e s) = isPlaying s \<and> userLocation (environment e s) = userLocation s
   \<and> greetingAudio (environment e s) = greetingAudio s \<and> endingAudio (environment e s) = endingAudio s
   \<and> approachEndedListener (environment e s) = approachEndedListener s"
  by (cases "(e, s)" rule: environment.cases) simp_all

lemma handler_prompt_players:
  "activeStop (run (handler e s) s0) \<noteq> activeStop s0 \<Longrightarrow>
   approachAudio (run (handler e s) s0) = approachAudio s0
   \<and> arriveAudio (run (handler e s) s0) = arriveAudio s0"
  by (cases "(e, s)" rule: handler.cases)
     (auto simp add: handlePlay_def handleSkip_def onGreetingEnded_def onApproachEnded_def
        onArrivedEnded_def handleTimeUpdate_def restartTour_def timerCallback_frame
        split: jsarg.splits if_splits)

lemma handler_visited:
  "normalOperation e \<Longrightarrow>
   visitedStops (run (handler e s) s0) =
     (case e of
        NarrationTime t \<Rightarrow>
          if isRealStop (activeStop s) (allStops s) \<and> narrationAudio s \<noteq> None
             \<and> activeStop s \<notin> set (visitedStops s) \<and> 60 \<le> t
          then (if activeStop s \<in> set (visitedStops s0) then visitedStops s0
                else visitedStops s0 @ [activeStop s])
          else visitedStops s0
      | _ \<Rightarrow> visitedStops s0)"
  by (cases "(e, s)" rule: handler.cases)
     (auto simp add: handlePlay_def handleSkip_def onGreetingEnded_def onApproachEnded_def
        onArrivedEnded_def handleTimeUpdate_def timerCallback_frame VISITED_THRESHOLD_SECONDS_def
        split: jsarg.splits)

lemma timers_applyUpdate: "set (timers s) \<subseteq> set (timers (applyUpdate u s))"
  by (cases "(u, s)" rule: applyUpdate.cases) auto

lemma timers_run: "set (timers s) \<subseteq> set (timers (run us s))"
proof (induction us arbitrary: s)
  case Nil
  then show ?case by simp
next
  case (Cons u us)
  have "set (timers s) \<subseteq> set (timers (applyUpdate u s))"
    by (rule timers_applyUpdate)
  also have "\<dots> \<subseteq> set (timers (run us (applyUpdate u s)))"
    by (rule Cons.IH)
  finally show ?case by simp
qed

text \<open>
  Running the autoplay effect again on its own result changes nothing: every path that
  sets a segment then finds that segment (or a prompt it must not interrupt) active.
\<close>

lemma autoplay_settled:
  "run (autoplayEffect (run (autoplayEffect s) s)) (run (autoplayEffect s) s) = run (autoplayEffect s) s"
proof -
  define s' where "s' = run (autoplayEffect s) s"
  have fr: "activeStop s' = activeStop s" "allStops s' = allStops s" "userLocation s' = userLocation s"
    "visitedStops s' = visitedStops s"
    by (simp_all add: s'_def autoplay_frame)
  have "run (autoplayEffect s') s' = s'"
  proof (cases "allStops s = []")
    case True
    then show ?thesis
      using autoplay_unloaded [of s'] fr by simp
  next
    case loaded: False
    show ?thesis
    proof (cases "activeStop s = 0")
      case True
      then have "currentAudio s' = Some Greeting"
        using loaded by (simp add: s'_def autoplay_greeting)
      then show ?thesis
        using autoplay_greeting [of s'] loaded True fr by simp
    next
      case notfirst: False
      show ?thesis
      proof (cases "activeStop s = int (length (allStops s)) - 1")
        case True
        then have "currentAudio s' = Some Ending"
          using loaded notfirst by (simp add: s'_def autoplay_ending)
        then show ?thesis
          using autoplay_ending [of s'] loaded notfirst True fr by simp
      next
        case notlast: False
        show ?thesis
        proof (cases "isRealStop (activeStop s) (allStops s)")
          case False
          then show ?thesis
            using autoplay_elsewhere [of s'] loaded notfirst notlast fr by simp
        next
          case real: True
          then have real': "isRealStop (activeStop s') (allStops s')"
            using fr by simp
          show ?thesis
          proof (cases "activeStop s \<in> set (visitedStops s)")
            case True
            then have "currentAudio s' = Some Narration"
              using real by (simp add: s'_def autoplay_visited)
            with real' show ?thesis
              by (rule autoplay_narration_stays)
          next
            case fresh: False
            show ?thesis
            proof (cases "truthy (lat (allStops s ! nat (activeStop s))) \<and> truthy (lng (allStops s ! nat (activeStop s)))")
              case False
              then have "currentAudio s' = Some Narration"
                using real fresh autoplay_nocoords [of s] by (simp add: s'_def)
              with real' show ?thesis
                by (rule autoplay_narration_stays)
            next
              case True
              then obtain la lo where c: "lat (allStops s ! nat (activeStop s)) = Some la" "la \<noteq> 0"
                "lng (allStops s ! nat (activeStop s)) = Some lo" "lo \<noteq> 0"
                by (auto simp add: truthy_def split: option.splits)
              show ?thesis
              proof (cases "userLocation s")
                case None
                then have "currentAudio s' = Some Approaching \<or> currentAudio s' = Some Arrived
                    \<or> currentAudio s' = Some Narration"
                  using real fresh True autoplay_nolocation [of s] by (auto simp add: s'_def)
                then show ?thesis
                  using real fresh True None autoplay_nolocation [of s'] fr by auto
              next
                case (Some u)
                then obtain ula ulo where u: "userLocation s = Some (ula, ulo)"
                  by (cases u) simp
                then have "currentAudio s' = Some Approaching \<or> currentAudio s' = Some Arrived
                    \<or> currentAudio s' = Some Narration"
                  using real fresh c autoplay_coords [of s la lo ula ulo "getDistanceMeters ula ulo la lo"]
                  by (auto simp add: s'_def)
                then show ?thesis
                  using real fresh c u fr
                    autoplay_coords [of s' la lo ula ulo "getDistanceMeters ula ulo la lo"]
                  by auto
              qed
            qed
          qed
        qed
      qed
    qed
  qed
  then show ?thesis
    by (simp add: s'_def)
qed

section \<open>The render cycle\<close>

lemma settle_quiescent: "quiescent fresh prev cur \<Longrightarrow> settle (Suc n) fresh prev cur = Some cur"
  by simp

lemma settle_pass:
  "\<not> quiescent fresh prev cur \<Longrightarrow>
   settle (Suc n) fresh prev cur = settle n False cur (run (effectsPass fresh prev cur) cur)"
  by simp

lemma quiescent_refl: "quiescent False s s"
  by (simp add: quiescent_def autoplayDepsSame_def resetDepsSame_def)

lemma settle_same: "settle (Suc n) False s s = Some s"
  by (simp add: quiescent_refl)

lemma step_no_updates:
  "handler e s = [] \<Longrightarrow> freshObject e = False \<Longrightarrow> environment e s = s \<Longrightarrow> step (Suc n) e s = Some s"
  by (simp add: step_def quiescent_refl)

lemma settle_frame:
  "settle n f p c = Some s' \<Longrightarrow>
   activeStop s' = activeStop c \<and> allStops s' = allStops c \<and> userLocation s' = userLocation c
   \<and> visitedStops s' = visitedStops c \<and> approachAudio s' = approachAudio c
   \<and> arriveAudio s' = arriveAudio c \<and> approachEndedListener s' = approachEndedListener c
   \<and> arrivedEndedListener s' = arrivedEndedListener c \<and> canVibrate s' = canVibrate c
   \<and> hasPlayedGreeting s' = hasPlayedGreeting c"
proof (induction n arbitrary: f p c)
  case 0
  then show ?case by simp
next
  case (Suc n)
  show ?case
  proof (cases "quiescent f p c")
    case True
    with Suc.prems show ?thesis by simp
  next
    case False
    with Suc.prems have "settle n False c (run (effectsPass f p c) c) = Some s'"
      by simp
    from Suc.IH [OF this] show ?thesis
      by (simp add: pass_frame)
  qed
qed

lemma timers_settle: "settle n f p c = Some s' \<Longrightarrow> set (timers c) \<subseteq> set (timers s')"
proof (induction n arbitrary: f p c)
  case 0
  then show ?case by simp
next
  case (Suc n)
  show ?case
  proof (cases "quiescent f p c")
    case True
    with Suc.prems show ?thesis by simp
  next
    case False
    with Suc.prems have "settle n False c (run (effectsPass f p c) c) = Some s'"
      by simp
    from Suc.IH [OF this] timers_run [of c "effectsPass f p c"] show ?thesis
      by blast
  qed
qed

lemma autoplay_only_pass:
  assumes "activeStop p = activeStop c" "\<not> quiescent False p c"
  shows "effectsPass False p c = autoplayEffect c"
  using assms by (simp add: effectsPass_def quiescent_def resetDepsSame_def)

text \<open>
  The render cycle always settles: after at most three passes of effects a render changes
  no dependency, so four rounds of fuel suffice for every event in every state, and more
  fuel never changes the result.
\<close>

lemma settle_terminates: "\<exists>s'. settle (Suc (Suc (Suc (Suc n)))) f p c = Some s'"
proof (cases "quiescent f p c")
  case True
  then show ?thesis by simp
next
  case q0: False
  define s1 where "s1 = run (effectsPass f p c) c"
  have a1: "activeStop c = activeStop s1"
    by (simp add: s1_def pass_frame)
  show ?thesis
  proof (cases "quiescent False c s1")
    case True
    then show ?thesis
      using q0 by (simp add: s1_def [symmetric])
  next
    case q1: False
    define s2 where "s2 = run (autoplayEffect s1) s1"
    have p1: "run (effectsPass False c s1) s1 = s2"
      by (simp add: autoplay_only_pass [OF a1 q1] s2_def)
    have a2: "activeStop s1 = activeStop s2"
      by (simp add: s2_def autoplay_frame)
    show ?thesis
    proof (cases "quiescent False s1 s2")
      case True
      then show ?thesis
        using q0 q1 by (simp add: s1_def [symmetric] p1)
    next
      case q2: False
      have p2: "run (effectsPass False s1 s2) s2 = s2"
        by (simp add: autoplay_only_pass [OF a2 q2]) (simp add: s2_def autoplay_settled)
      show ?thesis
        using q0 q1 q2 by (simp add: s1_def [symmetric] p1 p2 quiescent_refl)
    qed
  qed
qed

lemma step_terminates: "\<exists>s'. step (Suc (Suc (Suc (Suc n)))) e s = Some s'"
  unfolding step_def Let_def by (rule settle_terminates)

lemma settle_more_fuel: "settle n f p c = Some s' \<Longrightarrow> settle (n + k) f p c = Some s'"
proof (induction n arbitrary: f p c)
  case 0
  then show ?case by simp
next
  case (Suc n)
  show ?case
  proof (cases "quiescent f p c")
    case True
    with Suc.prems show ?thesis by simp
  next
    case False
    with Suc.prems have "settle n False c (run (effectsPass f p c) c) = Some s'"
      by simp
    from Suc.IH [OF this] False show ?thesis
      by simp
  qed
qed

lemma step_more_fuel: "step n e s = Some s' \<Longrightarrow> step (n + k) e s = Some s'"
  unfolding step_def Let_def by (rule settle_more_fuel)

section \<open>The sample tour\<close>

text \<open>Loading the sample tour from the initial state gives \<open>tourState\<close>.\<close>

lemmas demo = tourState_def demoStops_def isRealStop_def

lemma tourState_reached:
  "step 4 (TourLoaded [\<lparr>lat = Some 1, lng = Some 2\<rparr>, \<lparr>lat = Some 3, lng = Some 4\<rparr>, \<lparr>lat = Some 0, lng = Some 5\<rparr>])
     (initialState True) = Some tourState"
  by (simp add: demo step_def initialState_def numeral_eq_Suc quiescent_def effectsPass_def
      resetDepsSame_def autoplayDepsSame_def autoplayEffect_def)

text \<open>
  No event changes the two listener flags. The mount effects of lines 260-291 run once,
  after the first render, when the component still shows \<^verbatim>\<open>Loading...\<close> and both
  refs are null; so from \<open>initialState\<close> on, the \<^verbatim>\<open>ended\<close> listeners of those two
  effects are never attached.
\<close>

lemma listeners_unchanged:
  "step fuel e s = Some s' \<Longrightarrow>
   approachEndedListener s' = approachEndedListener s \<and> arrivedEndedListener s' = arrivedEndedListener s"
proof -
  assume "step fuel e s = Some s'"
  then have "settle fuel (freshObject e) (environment e s) (run (handler e s) (environment e s)) = Some s'"
    by (simp add: step_def Let_def)
  then have "approachEndedListener s' = approachEndedListener (run (handler e s) (environment e s))
      \<and> arrivedEndedListener s' = arrivedEndedListener (run (handler e s) (environment e s))"
    using settle_frame by blast
  moreover have "approachEndedListener (run (handler e s) s0) = approachEndedListener s0
      \<and> arrivedEndedListener (run (handler e s) s0) = arrivedEndedListener s0" for s0
    by (cases "(e, s)" rule: handler.cases)
       (auto simp add: handlePlay_def handleSkip_def onGreetingEnded_def onApproachEnded_def
          onArrivedEnded_def handleTimeUpdate_def restartTour_def timerCallback_listeners
          split: jsarg.splits)
  moreover have "approachEndedListener (environment e s) = approachEndedListener s
      \<and> arrivedEndedListener (environment e s) = arrivedEndedListener s"
    by (cases "(e, s)" rule: environment.cases) simp_all
  ultimately show ?thesis
    by simp
qed

text \<open>
  Selecting the ending from the stop list while some segment is active does start the
  ending: the reset effect clears the segment, which re-runs the autoplay effect. And at
  the ending, a location update starts it if it is not the active segment.
\<close>

lemma select_ending_plays:
  assumes loaded: "2 \<le> length (allStops s)"
    and elsewhere: "activeStop s \<noteq> int (length (allStops s)) - 1"
    and active: "currentAudio s \<noteq> None"
  shows "step (Suc (Suc (Suc (Suc n)))) (SelectStop (int (length (allStops s)) - 1)) s =
    Some (s\<lparr>activeStop := int (length (allStops s)) - 1, currentAudio := Some Ending, isPlaying := True,
            narrationAudio := map_option (\<lambda>_. 0) (narrationAudio s),
            greetingAudio := map_option (\<lambda>_. 0) (greetingAudio s),
            endingAudio := map_option (\<lambda>_. 0) (endingAudio s)\<rparr>)"
proof -
  define ending where "ending = int (length (allStops s)) - 1"
  define s1 where "s1 = s\<lparr>activeStop := ending\<rparr>"
  define s2 where "s2 = s1\<lparr>currentAudio := None, isPlaying := False,
            narrationAudio := map_option (\<lambda>_. 0) (narrationAudio s),
            greetingAudio := map_option (\<lambda>_. 0) (greetingAudio s),
            endingAudio := map_option (\<lambda>_. 0) (endingAudio s)\<rparr>"
  define s3 where "s3 = s2\<lparr>currentAudio := Some Ending, isPlaying := True\<rparr>"
  have inrange: "0 \<le> ending \<and> ending < int (length (allStops s))"
    using loaded by (auto simp add: ending_def)
  have ne: "allStops s \<noteq> []" "ending \<noteq> 0"
    using loaded by (auto simp add: ending_def)
  have hs: "run (handler (SelectStop ending) s) (environment (SelectStop ending) s) = s1"
    using inrange by (simp add: s1_def)
  have notq1: "\<not> quiescent False s s1"
    using elsewhere by (simp add: quiescent_def resetDepsSame_def s1_def ending_def)
  have pass1: "effectsPass False s s1 = autoplayEffect s1 @ resetEffect s1"
    using elsewhere by (simp add: effectsPass_def autoplayDepsSame_def resetDepsSame_def s1_def ending_def)
  have auto1: "autoplayEffect s1 = Log ''[AUTOPLAY EFFECT]'' # Log ''[AUTOPLAY] On ending stop'' #
      (if currentAudio s = Some Ending then [] else [SetCurrentAudio (Some Ending), SetIsPlaying True])"
    using ne autoplay_ending [of s1] by (simp add: s1_def ending_def)
  have r1: "run (effectsPass False s s1) s1 = s2"
    unfolding pass1 auto1
    by (cases "narrationAudio s"; cases "greetingAudio s"; cases "endingAudio s")
       (simp_all add: resetEffect_def s1_def s2_def)
  have notq2: "\<not> quiescent False s1 s2"
    using active by (auto simp add: quiescent_def autoplayDepsSame_def s1_def s2_def)
  have pass2: "effectsPass False s1 s2 = autoplayEffect s2"
    using active by (auto simp add: effectsPass_def autoplayDepsSame_def resetDepsSame_def s1_def s2_def)
  have auto2: "autoplayEffect s2 = [Log ''[AUTOPLAY EFFECT]'', Log ''[AUTOPLAY] On ending stop'',
      SetCurrentAudio (Some Ending), SetIsPlaying True]"
    using ne autoplay_ending [of s2] by (simp add: s1_def s2_def ending_def)
  have r2: "run (effectsPass False s1 s2) s2 = s3"
    unfolding pass2 auto2 by (simp add: s3_def)
  have notq3: "\<not> quiescent False s2 s3"
    by (simp add: quiescent_def autoplayDepsSame_def s2_def s3_def)
  have pass3: "effectsPass False s2 s3 = autoplayEffect s3"
    by (simp add: effectsPass_def autoplayDepsSame_def resetDepsSame_def s2_def s3_def)
  have auto3: "autoplayEffect s3 = [Log ''[AUTOPLAY EFFECT]'', Log ''[AUTOPLAY] On ending stop'']"
    using ne autoplay_ending [of s3] by (simp add: s1_def s2_def s3_def ending_def)
  have r3: "run (effectsPass False s2 s3) s3 = s3"
    unfolding pass3 auto3 by simp
  have "step (Suc (Suc (Suc (Suc n)))) (SelectStop ending) s = Some s3"
    unfolding step_def Let_def hs
    by (simp only: freshObject.simps environment.simps settle_pass [OF notq1] r1
        settle_pass [OF notq2] r2 settle_pass [OF notq3] r3 settle_same)
  then show ?thesis
    by (simp add: s3_def s2_def s1_def ending_def)
qed

lemma location_update_starts_ending:
  assumes loaded: "2 \<le> length (allStops s)"
    and last: "activeStop s = int (length (allStops s)) - 1"
    and silent: "currentAudio s \<noteq> Some Ending"
  shows "step (Suc (Suc (Suc n))) (LocationUpdate ula ulo) s =
    Some (s\<lparr>userLocation := Some (ula, ulo), currentAudio := Some Ending, isPlaying := True\<rparr>)"
proof -
  define s1 where "s1 = s\<lparr>userLocation := Some (ula, ulo)\<rparr>"
  define s2 where "s2 = s1\<lparr>currentAudio := Some Ending, isPlaying := True\<rparr>"
  have ne: "allStops s \<noteq> []" "activeStop s \<noteq> 0"
    using loaded last by auto
  have auto1: "autoplayEffect s1 = [Log ''[AUTOPLAY EFFECT]'', Log ''[AUTOPLAY] On ending stop'',
      SetCurrentAudio (Some Ending), SetIsPlaying True]"
    using ne last silent autoplay_ending [of s1] by (simp add: s1_def)
  have auto2: "autoplayEffect s2 = [Log ''[AUTOPLAY EFFECT]'', Log ''[AUTOPLAY] On ending stop'']"
    using ne last autoplay_ending [of s2] by (simp add: s2_def s1_def)
  have hs: "run (handler (LocationUpdate ula ulo) s) (environment (LocationUpdate ula ulo) s) = s1"
    by (simp add: s1_def)
  have a1: "activeStop s1 = activeStop s"
    by (simp add: s1_def)
  have p1: "run (effectsPass True s s1) s1 = s2"
    by (simp add: effectsPass_def resetDepsSame_def a1 auto1 s2_def)
  have start: "step (Suc (Suc (Suc n))) (LocationUpdate ula ulo) s = settle (Suc (Suc n)) False s1 s2"
    unfolding step_def Let_def hs by (simp add: quiescent_def p1)
  have notq: "\<not> quiescent False s1 s2"
    using silent by (simp add: quiescent_def autoplayDepsSame_def s2_def s1_def)
  have pass: "run (effectsPass False s1 s2) s2 = s2"
    using silent
    by (simp add: effectsPass_def autoplayDepsSame_def resetDepsSame_def auto2) (simp add: s2_def s1_def)
  have "settle (Suc (Suc n)) False s1 s2 = Some s2"
    by (simp only: settle_pass [OF notq] pass settle_same)
  then show ?thesis
    by (simp add: start s2_def s1_def)
qed

section \<open>The claims\<close>

text \<open>
  C1. Whenever an event changes the stop index (skip, selecting a stop, the end of the
  greeting, restart, restored progress), the state right after the effects of that change
  has no active segment and \<open>isPlaying = False\<close>, and the narration, greeting and ending
  players read position 0 where they are mounted. The approaching and arrived players are
  not rewound: they keep the position they had. The reset effect, lines 346-358, whose
  comment says it resets all audio state, assigns \<^verbatim>\<open>currentTime = 0\<close> on three of the
  five refs only.
\<close>

theorem C1_stop_change_resets_three_players:
  assumes changed: "activeStop (run (handler e s) (environment e s)) \<noteq> activeStop s"
  shows "currentAudio (afterFirstPass e s) = None
    \<and> isPlaying (afterFirstPass e s) = False
    \<and> narrationAudio (afterFirstPass e s) \<in> {None, Some 0}
    \<and> greetingAudio (afterFirstPass e s) \<in> {None, Some 0}
    \<and> endingAudio (afterFirstPass e s) \<in> {None, Some 0}
    \<and> approachAudio (afterFirstPass e s) = approachAudio s
    \<and> arriveAudio (afterFirstPass e s) = arriveAudio s"
proof -
  define s0 where "s0 = environment e s"
  define s1 where "s1 = run (handler e s) s0"
  define auto_part where "auto_part = (if freshObject e then autoplayEffect s1
      else if autoplayDepsSame s0 s1 then [] else autoplayEffect s1)"
  define s2 where "s2 = run auto_part s1"
  have ne: "activeStop s1 \<noteq> activeStop s0"
    using changed by (simp add: s1_def s0_def environment_frame)
  have pass: "effectsPass (freshObject e) s0 s1 = auto_part @ resetEffect s1"
    using ne by (simp add: effectsPass_def resetDepsSame_def auto_part_def)
  have after: "afterFirstPass e s = run (resetEffect s1) s2"
    by (simp add: afterFirstPass_def Let_def pass s0_def [symmetric] s1_def [symmetric] s2_def)
  have players2: "narrationAudio s2 = narrationAudio s1" "greetingAudio s2 = greetingAudio s1"
    "endingAudio s2 = endingAudio s1" "approachAudio s2 = approachAudio s1"
    "arriveAudio s2 = arriveAudio s1"
    by (simp_all add: s2_def auto_part_def autoplay_frame)
  have prompts: "approachAudio s1 = approachAudio s" "arriveAudio s1 = arriveAudio s"
    using handler_prompt_players [of e s s0] ne
    by (simp_all add: s1_def s0_def environment_frame)
  show ?thesis
    unfolding after
    by (cases "narrationAudio s1"; cases "greetingAudio s1"; cases "endingAudio s1")
       (simp_all add: reset_result reset_frame players2 prompts)
qed

text \<open>
  The approaching prompt is 1.5 s in when the user selects stop 2: after the change the
  segment is cleared and the approaching player still reads 1.5 s.
\<close>

theorem C1_witness:
  "approachAudio (afterFirstPass (SelectStop 2)
      (tourState\<lparr>activeStop := 1, currentAudio := Some Approaching, isPlaying := True,
         approachAudio := Some (3 / 2)\<rparr>)) = Some (3 / 2)
   \<and> currentAudio (afterFirstPass (SelectStop 2)
      (tourState\<lparr>activeStop := 1, currentAudio := Some Approaching, isPlaying := True,
         approachAudio := Some (3 / 2)\<rparr>)) = None"
  using C1_stop_change_resets_three_players
    [where e = "SelectStop 2" and s = "tourState\<lparr>activeStop := 1, currentAudio := Some Approaching,
        isPlaying := True, approachAudio := Some (3 / 2)\<rparr>"]
  by (simp add: demo)

text \<open>
  C2, as the code has it. The source never cancels a timer. A pending arrived-to-narration
  timer is still pending once the component has settled after \<^verbatim>\<open>handleSkip\<close> or
  after selecting a stop, whatever the target; when it fires
  it sets the segment to narration, \<open>isPlaying\<close> to true and clears the banner, whatever
  the stop index is by then; and on a real stop that is the state the component settles in.
\<close>

theorem C2_stale_timer_still_fires:
  assumes pending: "StartNarration \<in> set (timers s)"
  shows "(\<exists>s'. step (Suc (Suc (Suc (Suc n)))) (Skip a) s = Some s' \<and> StartNarration \<in> set (timers s'))
    \<and> (\<exists>s'. step (Suc (Suc (Suc (Suc n)))) (SelectStop i) s = Some s'
          \<and> StartNarration \<in> set (timers s'))
    \<and> run (handler (TimerFired StartNarration) s) (environment (TimerFired StartNarration) s)
        = s\<lparr>timers := remove1 StartNarration (timers s), currentAudio := Some Narration,
            isPlaying := True, banner := None\<rparr>
    \<and> (isRealStop (activeStop s) (allStops s) \<longrightarrow>
        step (Suc (Suc n)) (TimerFired StartNarration) s
          = Some (s\<lparr>timers := remove1 StartNarration (timers s), currentAudio := Some Narration,
              isPlaying := True, banner := None\<rparr>))"
proof -
  have keep: "StartNarration \<in> set (timers s')"
    if "step fuel e s = Some s'" "environment e s = s" for fuel e s'
  proof -
    from that have "settle fuel (freshObject e) s (run (handler e s) s) = Some s'"
      by (simp add: step_def Let_def)
    then have "set (timers (run (handler e s) s)) \<subseteq> set (timers s')"
      by (rule timers_settle)
    with timers_run [of s "handler e s"] pending show ?thesis
      by blast
  qed
  have a: "\<exists>s'. step (Suc (Suc (Suc (Suc n)))) (Skip a) s = Some s' \<and> StartNarration \<in> set (timers s')"
    using step_terminates [of n "Skip a" s] keep [of _ "Skip a"] by auto
  have b: "\<exists>s'. step (Suc (Suc (Suc (Suc n)))) (SelectStop i) s = Some s'
          \<and> StartNarration \<in> set (timers s')"
    using step_terminates [of n "SelectStop i" s] keep [of _ "SelectStop i"] by auto
  define s0 where "s0 = s\<lparr>timers := remove1 StartNarration (timers s)\<rparr>"
  define s1 where "s1 = s0\<lparr>currentAudio := Some Narration, isPlaying := True, banner := None\<rparr>"
  have fired: "run (handler (TimerFired StartNarration) s) (environment (TimerFired StartNarration) s) = s1"
    using pending by (simp add: s1_def s0_def)
  have c: "run (handler (TimerFired StartNarration) s) (environment (TimerFired StartNarration) s)
        = s\<lparr>timers := remove1 StartNarration (timers s), currentAudio := Some Narration,
            isPlaying := True, banner := None\<rparr>"
    unfolding fired by (simp add: s1_def s0_def)
  have d: "isRealStop (activeStop s) (allStops s) \<longrightarrow>
        step (Suc (Suc n)) (TimerFired StartNarration) s
          = Some (s\<lparr>timers := remove1 StartNarration (timers s), currentAudio := Some Narration,
              isPlaying := True, banner := None\<rparr>)"
  proof
    assume real: "isRealStop (activeStop s) (allStops s)"
    have env: "environment (TimerFired StartNarration) s = s0"
      by (simp add: s0_def)
    have start: "step (Suc (Suc n)) (TimerFired StartNarration) s = settle (Suc (Suc n)) False s0 s1"
      using fired unfolding step_def Let_def env by simp
    have real1: "isRealStop (activeStop s1) (allStops s1)" "currentAudio s1 = Some Narration"
      using real by (simp_all add: s1_def s0_def)
    have stay: "run (autoplayEffect s1) s1 = s1"
      using real1 by (rule autoplay_narration_stays)
    have pass: "run (effectsPass False s0 s1) s1 = s1"
      by (simp add: effectsPass_def stay) (simp add: resetDepsSame_def s1_def)
    have "settle (Suc (Suc n)) False s0 s1 = Some s1"
    proof (cases "quiescent False s0 s1")
      case True
      then show ?thesis by simp
    next
      case False
      then show ?thesis
        by (simp only: settle_pass [OF False] pass settle_same)
    qed
    then show "step (Suc (Suc n)) (TimerFired StartNarration) s
          = Some (s\<lparr>timers := remove1 StartNarration (timers s), currentAudio := Some Narration,
              isPlaying := True, banner := None\<rparr>)"
      by (simp add: start s1_def s0_def)
  qed
  show ?thesis
    by (intro conjI) (rule a b c d)+
qed

text \<open>
  The claim itself fails: the arrived prompt ends at stop 1, the user skips to stop 2 while
  the delay is pending (no segment active, nothing playing), then the timer fires and
  narration plays at stop 2.
\<close>

theorem C2_counterexample:
  "step 3 (Ended Arrived) (tourState\<lparr>activeStop := 1, currentAudio := Some Arrived, isPlaying := True\<rparr>)
     = Some (tourState\<lparr>activeStop := 1, currentAudio := Some Arrived, isPlaying := True,
         banner := Some ARRIVE_BANNER, timers := [StartNarration]\<rparr>)
   \<and> step 3 (Skip (Number 2))
        (tourState\<lparr>activeStop := 1, currentAudio := Some Arrived, isPlaying := True,
           banner := Some ARRIVE_BANNER, timers := [StartNarration]\<rparr>)
     = Some (tourState\<lparr>activeStop := 2, currentAudio := None, isPlaying := False,
         banner := Some ARRIVE_BANNER, timers := [StartNarration]\<rparr>)
   \<and> step 3 (TimerFired StartNarration)
        (tourState\<lparr>activeStop := 2, currentAudio := None, isPlaying := False,
           banner := Some ARRIVE_BANNER, timers := [StartNarration]\<rparr>)
     = Some (tourState\<lparr>activeStop := 2, currentAudio := Some Narration, isPlaying := True,
         banner := None, timers := []\<rparr>)
   \<and> step 3 (TimerFired StartNarration)
        (tourState\<lparr>activeStop := 2, currentAudio := None, isPlaying := False,
           banner := Some ARRIVE_BANNER, timers := [StartNarration]\<rparr>)
     \<noteq> Some (tourState\<lparr>activeStop := 2, currentAudio := None, isPlaying := False,
         banner := Some ARRIVE_BANNER, timers := []\<rparr>)"
  by (simp add: demo step_def numeral_3_eq_3 quiescent_def effectsPass_def resetDepsSame_def
      autoplayDepsSame_def autoplayEffect_def resetEffect_def handleSkip_def onArrivedEnded_def
      vibrate_def truthy_def)

text \<open>The stale timer of that scenario, fired at stop 2.\<close>

theorem C2_witness:
  "step 2 (TimerFired StartNarration)
        (tourState\<lparr>activeStop := 2, currentAudio := None, isPlaying := False,
           banner := Some ARRIVE_BANNER, timers := [StartNarration]\<rparr>)
     = Some (tourState\<lparr>activeStop := 2, currentAudio := Some Narration, isPlaying := True,
         banner := None, timers := []\<rparr>)"
  using C2_stale_timer_still_fires
    [where s = "tourState\<lparr>activeStop := 2, currentAudio := None, isPlaying := False,
           banner := Some ARRIVE_BANNER, timers := [StartNarration]\<rparr>" and n = 0]
  by (simp add: demo numeral_2_eq_2)

text \<open>
  C3. What \<^verbatim>\<open>onApproachEnded\<close>, lines 261-267, does when the approaching prompt ends:
  it activates the arrived segment with \<open>isPlaying = True\<close>, but the banner it publishes
  is the approach banner, not the arrive banner, and the pulse is the approach pulse of
  100 ms, never the arrive pulse of 150 ms that the arrive branch of the autoplay effect
  (lines 224-230) pairs with the arrived segment. The handler runs only where the mount
  effect attached it; where it did not, the end of the approaching prompt changes nothing.
\<close>

theorem C3_approach_end_publishes_approach_banner:
  "run (onApproachEnded s) s =
     s\<lparr>currentAudio := Some Arrived, isPlaying := True, banner := Some APPROACH_BANNER,
       timers := timers s @ [BannerClear]\<rparr>
   \<and> APPROACH_BANNER \<noteq> ARRIVE_BANNER
   \<and> Vibrate 150 \<notin> set (onApproachEnded s)
   \<and> (canVibrate s \<longrightarrow> Vibrate 100 \<in> set (onApproachEnded s))
   \<and> (approachEndedListener s \<longrightarrow> handler (Ended Approaching) s = onApproachEnded s)
   \<and> (\<not> approachEndedListener s \<longrightarrow> step (Suc n) (Ended Approaching) s = Some s)"
proof (intro conjI impI)
  show "run (onApproachEnded s) s =
     s\<lparr>currentAudio := Some Arrived, isPlaying := True, banner := Some APPROACH_BANNER,
       timers := timers s @ [BannerClear]\<rparr>"
    by (simp add: onApproachEnded_def)
  show "APPROACH_BANNER \<noteq> ARRIVE_BANNER"
    by (simp add: APPROACH_BANNER_def ARRIVE_BANNER_def)
  show "Vibrate 150 \<notin> set (onApproachEnded s)"
    by (simp add: onApproachEnded_def vibrate_def)
  show "Vibrate 100 \<in> set (onApproachEnded s)" if "canVibrate s"
    using that by (simp add: onApproachEnded_def vibrate_def)
  show "handler (Ended Approaching) s = onApproachEnded s" if "approachEndedListener s"
    using that by simp
  show "step (Suc n) (Ended Approaching) s = Some s" if "\<not> approachEndedListener s"
    using that by (intro step_no_updates) simp_all
qed

text \<open>The approaching prompt ends at stop 1 of the sample tour.\<close>

theorem C3_witness:
  "banner (run (onApproachEnded (tourState\<lparr>activeStop := 1, currentAudio := Some Approaching, isPlaying := True\<rparr>))
       (tourState\<lparr>activeStop := 1, currentAudio := Some Approaching, isPlaying := True\<rparr>))
     = Some ''Almost there! Come a bit closer to hear the story.''
   \<and> onApproachEnded (tourState\<lparr>activeStop := 1, currentAudio := Some Approaching, isPlaying := True\<rparr>)
     = [SetCurrentAudio (Some Arrived), SetIsPlaying True,
        SetBanner (Some ''Almost there! Come a bit closer to hear the story.''), Vibrate 100,
        SetTimeout BannerClear 15000]
   \<and> step 1 (Ended Approaching) (tourState\<lparr>activeStop := 1, currentAudio := Some Approaching, isPlaying := True\<rparr>)
     = Some (tourState\<lparr>activeStop := 1, currentAudio := Some Approaching, isPlaying := True\<rparr>)"
  using C3_approach_end_publishes_approach_banner
    [where s = "tourState\<lparr>activeStop := 1, currentAudio := Some Approaching, isPlaying := True\<rparr>" and n = 0]
  by (simp add: demo APPROACH_BANNER_def onApproachEnded_def vibrate_def BANNER_TIMEOUT_def)

text \<open>
  C4, as the code has it. A location update arrives while the active stop is a real stop,
  not yet visited, whose latitude and longitude are both present and non-zero (the source
  tests them with \<^verbatim>\<open>!stop.lat || !stop.lng\<close>, lines 199-207), and no prompt or
  narration is the active segment. With \<open>d\<close> the distance from the reported
  position to the stop: if \<open>d \<le> 18\<close> the component settles with segment arrived, playing,
  and the arrive banner; if \<open>18 < d \<le> 60\<close> with segment approaching, playing, and the
  approach banner; otherwise with segment narration, not playing. In the first two cases a
  banner timer is scheduled; nothing else changes but the stored location.
\<close>

theorem C4_location_update_classifies:
  assumes real: "isRealStop (activeStop s) (allStops s)"
    and fresh: "activeStop s \<notin> set (visitedStops s)"
    and la: "lat (allStops s ! nat (activeStop s)) = Some la" "la \<noteq> 0"
    and lo: "lng (allStops s ! nat (activeStop s)) = Some lo" "lo \<noteq> 0"
    and seg: "currentAudio s \<noteq> Some Approaching" "currentAudio s \<noteq> Some Arrived"
      "currentAudio s \<noteq> Some Narration"
  shows "step (Suc (Suc (Suc n))) (LocationUpdate ula ulo) s =
    Some (if getDistanceMeters ula ulo la lo \<le> 18 then
            s\<lparr>userLocation := Some (ula, ulo), currentAudio := Some Arrived, isPlaying := True,
              banner := Some ARRIVE_BANNER, timers := timers s @ [BannerClear]\<rparr>
          else if getDistanceMeters ula ulo la lo \<le> 60 then
            s\<lparr>userLocation := Some (ula, ulo), currentAudio := Some Approaching, isPlaying := True,
              banner := Some APPROACH_BANNER, timers := timers s @ [BannerClear]\<rparr>
          else
            s\<lparr>userLocation := Some (ula, ulo), currentAudio := Some Narration, isPlaying := False\<rparr>)"
proof -
  define d where "d = getDistanceMeters ula ulo la lo"
  define s1 where "s1 = s\<lparr>userLocation := Some (ula, ulo)\<rparr>"
  define s2 where "s2 = run (autoplayEffect s1) s1"
  have start: "step (Suc (Suc (Suc n))) (LocationUpdate ula ulo) s = settle (Suc (Suc n)) False s1 s2"
    by (simp add: step_def s1_def s2_def quiescent_def effectsPass_def resetDepsSame_def)
  have first: "autoplayEffect s1 = Log ''[AUTOPLAY EFFECT]'' # LogDist d #
     (if d \<le> 18 then
        [Log ''[AUTOPLAY] In ARRIVE range'', SetCurrentAudio (Some Arrived), SetIsPlaying True,
         SetBanner (Some ARRIVE_BANNER)] @ vibrate s1 150 @ [SetTimeout BannerClear 15000]
      else if d \<le> 60 then
        [Log ''[AUTOPLAY] In APPROACH range'', SetCurrentAudio (Some Approaching), SetIsPlaying True,
         SetBanner (Some APPROACH_BANNER)] @ vibrate s1 100 @ [SetTimeout BannerClear 15000]
      else [Log ''[AUTOPLAY] Out of range, default to narration'', SetCurrentAudio (Some Narration), SetIsPlaying False])"
    using assms autoplay_coords [of s1 la lo ula ulo d]
    by (simp add: s1_def d_def)
  have s2: "s2 = (if d \<le> 18 then
            s1\<lparr>currentAudio := Some Arrived, isPlaying := True,
              banner := Some ARRIVE_BANNER, timers := timers s @ [BannerClear]\<rparr>
          else if d \<le> 60 then
            s1\<lparr>currentAudio := Some Approaching, isPlaying := True,
              banner := Some APPROACH_BANNER, timers := timers s @ [BannerClear]\<rparr>
          else s1\<lparr>currentAudio := Some Narration, isPlaying := False\<rparr>)"
    unfolding s2_def first by (simp add: s1_def)
  have seg2: "currentAudio s2 = Some Approaching \<or> currentAudio s2 = Some Arrived \<or> currentAudio s2 = Some Narration"
    by (simp add: s2)
  have notq: "\<not> quiescent False s1 s2"
    using seg by (auto simp add: s2 s1_def quiescent_def autoplayDepsSame_def)
  have pass: "effectsPass False s1 s2 = autoplayEffect s2"
    using seg by (auto simp add: s2 s1_def effectsPass_def autoplayDepsSame_def resetDepsSame_def)
  have second: "autoplayEffect s2 = [Log ''[AUTOPLAY EFFECT]'', LogDist d, Log ''[AUTOPLAY] Already in a prompt/narration:'']"
    using assms seg2 autoplay_coords [of s2 la lo ula ulo d]
    by (auto simp add: s2 s1_def d_def)
  have "settle (Suc (Suc n)) False s1 s2 = Some s2"
    by (simp only: settle_pass [OF notq] pass second) (simp add: quiescent_refl)
  then show ?thesis
    by (simp add: start s2 s1_def d_def)
qed

text \<open>
  The claim itself fails for a stop whose coordinates are known and one of them is 0.
  Stop 3 of the sample tour lies at latitude 0, longitude 5; it is a real stop, not
  visited, no segment is active, and the user stands on it, at distance 0. The update
  does not activate the arrived segment: the component settles with narration, playing,
  and no banner.
\<close>

theorem C4_counterexample:
  "isRealStop 3 demoStops
   \<and> lat (demoStops ! 3) = Some 0 \<and> lng (demoStops ! 3) = Some 5
   \<and> getDistanceMeters 0 5 0 5 \<le> 18
   \<and> step 3 (LocationUpdate 0 5) (tourState\<lparr>activeStop := 3, currentAudio := None\<rparr>)
     = Some (tourState\<lparr>activeStop := 3, userLocation := Some (0, 5), currentAudio := Some Narration,
         isPlaying := True\<rparr>)
   \<and> step 3 (LocationUpdate 0 5) (tourState\<lparr>activeStop := 3, currentAudio := None\<rparr>)
     \<noteq> Some (tourState\<lparr>activeStop := 3, userLocation := Some (0, 5), currentAudio := Some Arrived,
         isPlaying := True, banner := Some ARRIVE_BANNER, timers := [BannerClear]\<rparr>)"
  by (simp add: demo getDistanceMeters_same step_def numeral_3_eq_3 quiescent_def effectsPass_def
      resetDepsSame_def autoplayDepsSame_def autoplayEffect_def truthy_def)

text \<open>
  At stop 1 of the sample tour: a position on the stop arrives, one about 33 m north of it
  approaches, one about 1.1 km north of it is out of range.
\<close>

theorem C4_witness:
  "step 3 (LocationUpdate 1 2) (tourState\<lparr>activeStop := 1, currentAudio := None\<rparr>)
     = Some (tourState\<lparr>activeStop := 1, userLocation := Some (1, 2), currentAudio := Some Arrived,
         isPlaying := True, banner := Some ARRIVE_BANNER, timers := [BannerClear]\<rparr>)
   \<and> step 3 (LocationUpdate (10003 / 10000) 2) (tourState\<lparr>activeStop := 1, currentAudio := None\<rparr>)
     = Some (tourState\<lparr>activeStop := 1, userLocation := Some (10003 / 10000, 2),
         currentAudio := Some Approaching, isPlaying := True, banner := Some APPROACH_BANNER,
         timers := [BannerClear]\<rparr>)
   \<and> step 3 (LocationUpdate (101 / 100) 2) (tourState\<lparr>activeStop := 1, currentAudio := None\<rparr>)
     = Some (tourState\<lparr>activeStop := 1, userLocation := Some (101 / 100, 2),
         currentAudio := Some Narration, isPlaying := False\<rparr>)"
proof -
  have hyps: "isRealStop (activeStop (tourState\<lparr>activeStop := 1, currentAudio := None\<rparr>))
        (allStops (tourState\<lparr>activeStop := 1, currentAudio := None\<rparr>))"
    "activeStop (tourState\<lparr>activeStop := 1, currentAudio := None\<rparr>)
        \<notin> set (visitedStops (tourState\<lparr>activeStop := 1, currentAudio := None\<rparr>))"
    "lat (allStops (tourState\<lparr>activeStop := 1, currentAudio := None\<rparr>)
        ! nat (activeStop (tourState\<lparr>activeStop := 1, currentAudio := None\<rparr>))) = Some 1"
    "lng (allStops (tourState\<lparr>activeStop := 1, currentAudio := None\<rparr>)
        ! nat (activeStop (tourState\<lparr>activeStop := 1, currentAudio := None\<rparr>))) = Some 2"
    by (simp_all add: tourState_def demoStops_def isRealStop_def)
  have swap: "getDistanceMeters (10003 / 10000) 2 1 2 = getDistanceMeters 1 2 (10003 / 10000) 2"
    "getDistanceMeters (101 / 100) 2 1 2 = getDistanceMeters 1 2 (101 / 100) 2"
    by (rule getDistanceMeters_swap)+
  note inst = C4_location_update_classifies
    [where s = "tourState\<lparr>activeStop := 1, currentAudio := None\<rparr>" and la = 1 and lo = 2 and n = 0,
     OF hyps(1) hyps(2) hyps(3) _ hyps(4)]
  have a: "getDistanceMeters 1 2 1 2 \<le> 18"
    by (simp add: getDistanceMeters_same)
  have b: "\<not> getDistanceMeters (10003 / 10000) 2 1 2 \<le> 18" "getDistanceMeters (10003 / 10000) 2 1 2 \<le> 60"
    using distance_approach_sample unfolding swap by simp_all
  have c: "\<not> getDistanceMeters (101 / 100) 2 1 2 \<le> 18" "\<not> getDistanceMeters (101 / 100) 2 1 2 \<le> 60"
    using distance_far_sample unfolding swap by simp_all
  show ?thesis
    using inst [of 1 2] inst [of "10003 / 10000" 2] inst [of "101 / 100" 2] a b c
    by (simp add: numeral_3_eq_3 tourState_def)
qed

text \<open>
  C5, as the code has it. A location update arrives while the active stop is a real stop
  already visited. Whatever the distance, the component settles with segment narration. If
  narration was not the active segment, \<open>isPlaying\<close> becomes false; if narration was
  already the active segment, nothing changes but the stored location, so a narration that
  is playing keeps playing.
\<close>

theorem C5_revisit_keeps_narration:
  assumes real: "isRealStop (activeStop s) (allStops s)"
    and visited: "activeStop s \<in> set (visitedStops s)"
  shows "step (Suc (Suc (Suc n))) (LocationUpdate ula ulo) s =
    Some (if currentAudio s = Some Narration then s\<lparr>userLocation := Some (ula, ulo)\<rparr>
          else s\<lparr>userLocation := Some (ula, ulo), currentAudio := Some Narration, isPlaying := False\<rparr>)"
proof -
  define s1 where "s1 = s\<lparr>userLocation := Some (ula, ulo)\<rparr>"
  define s2 where "s2 = run (autoplayEffect s1) s1"
  have start: "step (Suc (Suc (Suc n))) (LocationUpdate ula ulo) s = settle (Suc (Suc n)) False s1 s2"
    by (simp add: step_def s1_def s2_def quiescent_def effectsPass_def resetDepsSame_def)
  have first: "autoplayEffect s1 = Log ''[AUTOPLAY EFFECT]'' # Log ''[AUTOPLAY] Revisited stop'' #
     (if currentAudio s = Some Narration then [] else [SetCurrentAudio (Some Narration), SetIsPlaying False])"
    using assms autoplay_visited [of s1] by (simp add: s1_def)
  have s2: "s2 = (if currentAudio s = Some Narration then s1
                  else s1\<lparr>currentAudio := Some Narration, isPlaying := False\<rparr>)"
    unfolding s2_def first by simp
  show ?thesis
  proof (cases "currentAudio s = Some Narration")
    case True
    then have "s2 = s1"
      by (simp add: s2)
    then have "settle (Suc (Suc n)) False s1 s2 = Some s1"
      by (simp only: settle_same)
    then show ?thesis
      using True by (simp add: start s1_def)
  next
    case False
    have notq: "\<not> quiescent False s1 s2"
      using False by (simp add: s2 s1_def quiescent_def autoplayDepsSame_def)
    have pass: "effectsPass False s1 s2 = autoplayEffect s2"
      using False by (simp add: s2 s1_def effectsPass_def autoplayDepsSame_def resetDepsSame_def)
    have second: "autoplayEffect s2 = [Log ''[AUTOPLAY EFFECT]'', Log ''[AUTOPLAY] Revisited stop'']"
      using assms False autoplay_visited [of s2] by (simp add: s2 s1_def)
    have "settle (Suc (Suc n)) False s1 s2 = Some s2"
      by (simp only: settle_pass [OF notq] pass second) (simp add: quiescent_refl)
    then show ?thesis
      using False by (simp add: start s2 s1_def)
  qed
qed

text \<open>
  The claim itself fails: at the visited stop 2 the narration is playing, a location update
  arrives, and \<open>isPlaying\<close> is still true afterwards.
\<close>

theorem C5_counterexample:
  "isRealStop 2 demoStops
   \<and> step 3 (LocationUpdate 3 4)
        (tourState\<lparr>activeStop := 2, visitedStops := [2], currentAudio := Some Narration, isPlaying := True\<rparr>)
     = Some (tourState\<lparr>activeStop := 2, visitedStops := [2], currentAudio := Some Narration,
         isPlaying := True, userLocation := Some (3, 4)\<rparr>)
   \<and> map_option isPlaying (step 3 (LocationUpdate 3 4)
        (tourState\<lparr>activeStop := 2, visitedStops := [2], currentAudio := Some Narration, isPlaying := True\<rparr>))
     \<noteq> Some False"
  by (simp add: demo step_def numeral_3_eq_3 quiescent_def effectsPass_def resetDepsSame_def
      autoplayDepsSame_def autoplayEffect_def)

text \<open>The visited stop 2 with no active segment: narration is activated, not playing.\<close>

theorem C5_witness:
  "step 3 (LocationUpdate 3 4) (tourState\<lparr>activeStop := 2, visitedStops := [2], currentAudio := None\<rparr>)
     = Some (tourState\<lparr>activeStop := 2, visitedStops := [2], currentAudio := Some Narration,
         isPlaying := False, userLocation := Some (3, 4)\<rparr>)"
  using C5_revisit_keeps_narration
    [where s = "tourState\<lparr>activeStop := 2, visitedStops := [2], currentAudio := None\<rparr>"
       and ula = 3 and ulo = 4 and n = 0]
  by (simp add: demo numeral_3_eq_3)

text \<open>
  C6. While narration is the active segment of a real stop and the narration element
  reports position \<open>t\<close>: the stop index is appended to the visited list exactly when
  \<open>t \<ge> 60\<close> and it is not yet in the list; otherwise the list is unchanged, so marking
  a visited stop again is a no-op. And in normal operation (every event but restart and the
  restoring of saved progress) the visited list changes only through such a time report of
  at least 60 s, which appends the active stop.
\<close>

theorem C6_dwell_marks_visited:
  "(isRealStop (activeStop s) (allStops s) \<and> narrationAudio s \<noteq> None
      \<and> currentAudio s = Some Narration \<longrightarrow>
      step (Suc (Suc n)) (NarrationTime t) s =
        Some (s\<lparr>narrationAudio := Some t,
                visitedStops := (if 60 \<le> t \<and> activeStop s \<notin> set (visitedStops s)
                                 then visitedStops s @ [activeStop s] else visitedStops s)\<rparr>))
   \<and> (normalOperation e \<and> step fuel e s = Some s' \<and> visitedStops s' \<noteq> visitedStops s \<longrightarrow>
        (\<exists>t. e = NarrationTime t \<and> 60 \<le> t \<and> visitedStops s' = visitedStops s @ [activeStop s]))"
proof (intro conjI impI)
  assume a: "isRealStop (activeStop s) (allStops s) \<and> narrationAudio s \<noteq> None
      \<and> currentAudio s = Some Narration"
  define s0 where "s0 = s\<lparr>narrationAudio := Some t\<rparr>"
  define s1 where "s1 = s0\<lparr>visitedStops := (if 60 \<le> t \<and> activeStop s \<notin> set (visitedStops s)
                                 then visitedStops s @ [activeStop s] else visitedStops s)\<rparr>"
  have env: "environment (NarrationTime t) s = s0"
    using a by (auto simp add: s0_def)
  have hs: "run (handler (NarrationTime t) s) s0 = s1"
    using a by (simp add: handleTimeUpdate_def VISITED_THRESHOLD_SECONDS_def s1_def s0_def)
  have start: "step (Suc (Suc n)) (NarrationTime t) s = settle (Suc (Suc n)) False s0 s1"
    unfolding step_def Let_def env hs by simp
  have real1: "isRealStop (activeStop s1) (allStops s1)" "currentAudio s1 = Some Narration"
    using a by (simp_all add: s1_def s0_def)
  have stay: "run (autoplayEffect s1) s1 = s1"
    using real1 by (rule autoplay_narration_stays)
  have pass: "run (effectsPass False s0 s1) s1 = s1"
    by (simp add: effectsPass_def stay) (simp add: resetDepsSame_def s1_def)
  have "settle (Suc (Suc n)) False s0 s1 = Some s1"
  proof (cases "quiescent False s0 s1")
    case True
    then show ?thesis by simp
  next
    case False
    then show ?thesis
      by (simp only: settle_pass [OF False] pass settle_same)
  qed
  then show "step (Suc (Suc n)) (NarrationTime t) s =
        Some (s\<lparr>narrationAudio := Some t,
                visitedStops := (if 60 \<le> t \<and> activeStop s \<notin> set (visitedStops s)
                                 then visitedStops s @ [activeStop s] else visitedStops s)\<rparr>)"
    by (simp add: start s1_def s0_def)
next
  assume b: "normalOperation e \<and> step fuel e s = Some s' \<and> visitedStops s' \<noteq> visitedStops s"
  then have "settle fuel (freshObject e) (environment e s) (run (handler e s) (environment e s)) = Some s'"
    by (simp add: step_def Let_def)
  then have v: "visitedStops s' = visitedStops (run (handler e s) (environment e s))"
    using settle_frame by blast
  from b have n: "normalOperation e" and ne: "visitedStops s' \<noteq> visitedStops s"
    by simp_all
  show "\<exists>t. e = NarrationTime t \<and> 60 \<le> t \<and> visitedStops s' = visitedStops s @ [activeStop s]"
    using ne unfolding v handler_visited [OF n]
    by (cases e) (auto simp add: environment_frame split: if_splits)
qed

text \<open>
  At stop 3 of the sample tour: 60 s marks the stop, 59 s does not, and 75 s at an already
  marked stop leaves the list as it is.
\<close>

theorem C6_witness:
  "step 2 (NarrationTime 60) (tourState\<lparr>activeStop := 3, currentAudio := Some Narration, isPlaying := True\<rparr>)
     = Some (tourState\<lparr>activeStop := 3, currentAudio := Some Narration, isPlaying := True,
         narrationAudio := Some 60, visitedStops := [3]\<rparr>)
   \<and> step 2 (NarrationTime 59) (tourState\<lparr>activeStop := 3, currentAudio := Some Narration, isPlaying := True\<rparr>)
     = Some (tourState\<lparr>activeStop := 3, currentAudio := Some Narration, isPlaying := True,
         narrationAudio := Some 59\<rparr>)
   \<and> step 2 (NarrationTime 75) (tourState\<lparr>activeStop := 3, currentAudio := Some Narration, isPlaying := True,
         visitedStops := [3]\<rparr>)
     = Some (tourState\<lparr>activeStop := 3, currentAudio := Some Narration, isPlaying := True,
         narrationAudio := Some 75, visitedStops := [3]\<rparr>)"
  using C6_dwell_marks_visited
      [where s = "tourState\<lparr>activeStop := 3, currentAudio := Some Narration, isPlaying := True\<rparr>"
         and t = 60 and n = 0]
    C6_dwell_marks_visited
      [where s = "tourState\<lparr>activeStop := 3, currentAudio := Some Narration, isPlaying := True\<rparr>"
         and t = 59 and n = 0]
    C6_dwell_marks_visited
      [where s = "tourState\<lparr>activeStop := 3, currentAudio := Some Narration, isPlaying := True,
         visitedStops := [3]\<rparr>" and t = 75 and n = 0]
  by (simp add: demo numeral_2_eq_2)

text \<open>
  C7. \<^verbatim>\<open>handleSkip\<close> accepts a target only inside \<open>[0, length - 1]\<close>. A request that
  is not a number, is negative or is at least the length is a silent no-op: the component
  settles in the state it was in. A request in range sets the stop index to the target,
  clears the active segment and sets \<open>isPlaying\<close> to false; when the index really changes,
  that is still so after the effects of the change. Whatever the argument, the state is
  unchanged or the new index lies in \<open>[0, length - 1]\<close>. The two skip buttons clamp their
  target to that range before calling \<^verbatim>\<open>handleSkip\<close>, so from a valid index their
  request is always accepted: at the first entry skip-previous targets the first entry, at
  the last entry skip-next targets the last.
\<close>

theorem C7_skip_guards_range:
  "step (Suc n) (Skip NotANumber) s = Some s
   \<and> (t < 0 \<or> int (length (allStops s)) \<le> t \<longrightarrow> step (Suc n) (Skip (Number t)) s = Some s)
   \<and> (0 \<le> t \<and> t < int (length (allStops s)) \<longrightarrow>
        run (handleSkip (Number t) s) s = s\<lparr>activeStop := t, currentAudio := None, isPlaying := False\<rparr>)
   \<and> (0 \<le> t \<and> t < int (length (allStops s)) \<and> t \<noteq> activeStop s \<longrightarrow>
        activeStop (afterFirstPass (Skip (Number t)) s) = t
        \<and> currentAudio (afterFirstPass (Skip (Number t)) s) = None
        \<and> isPlaying (afterFirstPass (Skip (Number t)) s) = False)
   \<and> (run (handleSkip a s) s = s
        \<or> (0 \<le> activeStop (run (handleSkip a s) s)
            \<and> activeStop (run (handleSkip a s) s) \<le> int (length (allStops s)) - 1))
   \<and> (0 \<le> activeStop s \<and> activeStop s < int (length (allStops s)) \<longrightarrow>
        run (handler SkipPrevious s) s
          = s\<lparr>activeStop := max (activeStop s - 1) 0, currentAudio := None, isPlaying := False\<rparr>
        \<and> run (handler SkipNext s) s
          = s\<lparr>activeStop := min (activeStop s + 1) (int (length (allStops s)) - 1),
              currentAudio := None, isPlaying := False\<rparr>)"
proof -
  have a: "step (Suc n) (Skip NotANumber) s = Some s"
    by (rule step_no_updates) (simp_all add: handleSkip_def)
  have b: "t < 0 \<or> int (length (allStops s)) \<le> t \<longrightarrow> step (Suc n) (Skip (Number t)) s = Some s"
  proof
    assume "t < 0 \<or> int (length (allStops s)) \<le> t"
    then have "handler (Skip (Number t)) s = []"
      by (auto simp add: handleSkip_def)
    then show "step (Suc n) (Skip (Number t)) s = Some s"
      by (rule step_no_updates) simp_all
  qed
  have c: "0 \<le> t \<and> t < int (length (allStops s)) \<longrightarrow>
        run (handleSkip (Number t) s) s = s\<lparr>activeStop := t, currentAudio := None, isPlaying := False\<rparr>"
    by (simp add: handleSkip_def)
  have d: "0 \<le> t \<and> t < int (length (allStops s)) \<and> t \<noteq> activeStop s \<longrightarrow>
        activeStop (afterFirstPass (Skip (Number t)) s) = t
        \<and> currentAudio (afterFirstPass (Skip (Number t)) s) = None
        \<and> isPlaying (afterFirstPass (Skip (Number t)) s) = False"
  proof
    assume r: "0 \<le> t \<and> t < int (length (allStops s)) \<and> t \<noteq> activeStop s"
    define s1 where "s1 = s\<lparr>activeStop := t, currentAudio := None, isPlaying := False\<rparr>"
    have hs: "run (handler (Skip (Number t)) s) (environment (Skip (Number t)) s) = s1"
      using r by (simp add: handleSkip_def s1_def)
    have pass: "effectsPass False s s1 = autoplayEffect s1 @ resetEffect s1"
      using r by (simp add: effectsPass_def autoplayDepsSame_def resetDepsSame_def s1_def)
    have after: "afterFirstPass (Skip (Number t)) s = run (resetEffect s1) (run (autoplayEffect s1) s1)"
      using hs by (simp add: afterFirstPass_def Let_def pass)
    have "activeStop (afterFirstPass (Skip (Number t)) s) = t"
      unfolding after by (simp add: reset_frame autoplay_frame) (simp add: s1_def)
    moreover have "currentAudio (afterFirstPass (Skip (Number t)) s) = None"
      "isPlaying (afterFirstPass (Skip (Number t)) s) = False"
      unfolding after by (simp_all add: reset_result)
    ultimately show "activeStop (afterFirstPass (Skip (Number t)) s) = t
        \<and> currentAudio (afterFirstPass (Skip (Number t)) s) = None
        \<and> isPlaying (afterFirstPass (Skip (Number t)) s) = False"
      by simp
  qed
  have e: "run (handleSkip a s) s = s
        \<or> (0 \<le> activeStop (run (handleSkip a s) s)
            \<and> activeStop (run (handleSkip a s) s) \<le> int (length (allStops s)) - 1)"
    by (cases a) (auto simp add: handleSkip_def)
  have f: "0 \<le> activeStop s \<and> activeStop s < int (length (allStops s)) \<longrightarrow>
        run (handler SkipPrevious s) s
          = s\<lparr>activeStop := max (activeStop s - 1) 0, currentAudio := None, isPlaying := False\<rparr>
        \<and> run (handler SkipNext s) s
          = s\<lparr>activeStop := min (activeStop s + 1) (int (length (allStops s)) - 1),
              currentAudio := None, isPlaying := False\<rparr>"
    by (auto simp add: handleSkip_def)
  show ?thesis
    by (intro conjI) (rule a b c d e f)+
qed

text \<open>
  On the five entries of the sample tour: targets 5, -1 and a click event; target 2;
  skip-previous at the greeting and skip-next at the ending.
\<close>

theorem C7_witness:
  "step 1 (Skip (Number 5)) tourState = Some tourState
   \<and> step 1 (Skip (Number (- 1))) tourState = Some tourState
   \<and> step 1 (Skip NotANumber) tourState = Some tourState
   \<and> run (handleSkip (Number 2) tourState) tourState
       = tourState\<lparr>activeStop := 2, currentAudio := None, isPlaying := False\<rparr>
   \<and> run (handler SkipPrevious tourState) tourState
       = tourState\<lparr>activeStop := 0, currentAudio := None, isPlaying := False\<rparr>
   \<and> run (handler SkipNext (tourState\<lparr>activeStop := 4\<rparr>)) (tourState\<lparr>activeStop := 4\<rparr>)
       = tourState\<lparr>activeStop := 4, currentAudio := None, isPlaying := False\<rparr>"
  using C7_skip_guards_range [where s = tourState and t = 5 and n = 0]
    C7_skip_guards_range [where s = tourState and t = "- 1" and n = 0]
    C7_skip_guards_range [where s = tourState and t = 2 and n = 0]
    C7_skip_guards_range [where s = "tourState\<lparr>activeStop := 4\<rparr>" and t = 2 and n = 0]
  by (simp add: demo)

text \<open>
  C8. The ending does not start when the last index is reached through \<^verbatim>\<open>handleSkip\<close>.
  The handler stores the new index together with an empty segment. In the pass of effects
  that follows, the autoplay effect (lines 180-187, ``always autoplay when reached'')
  queues segment ending and \<open>isPlaying = True\<close>, and the reset effect (lines 346-358),
  which runs after it in the same pass, queues an empty segment and \<open>isPlaying = False\<close>
  behind them. The next render therefore sees the segment it saw before, no dependency of
  the autoplay effect has changed, and the component settles with no active segment and
  nothing playing.
\<close>

theorem C8_skip_to_ending_plays_nothing:
  assumes loaded: "2 \<le> length (allStops s)"
    and elsewhere: "activeStop s \<noteq> int (length (allStops s)) - 1"
  shows "step (Suc (Suc n)) (Skip (Number (int (length (allStops s)) - 1))) s =
    Some (s\<lparr>activeStop := int (length (allStops s)) - 1, currentAudio := None, isPlaying := False,
            narrationAudio := map_option (\<lambda>_. 0) (narrationAudio s),
            greetingAudio := map_option (\<lambda>_. 0) (greetingAudio s),
            endingAudio := map_option (\<lambda>_. 0) (endingAudio s)\<rparr>)"
proof -
  define ending where "ending = int (length (allStops s)) - 1"
  define s1 where "s1 = s\<lparr>activeStop := ending, currentAudio := None, isPlaying := False\<rparr>"
  define s2 where "s2 = run (effectsPass False s s1) s1"
  have inrange: "0 \<le> ending \<and> ending < int (length (allStops s))"
    using loaded by (auto simp add: ending_def)
  have ne: "allStops s \<noteq> []" "ending \<noteq> 0"
    using loaded by (auto simp add: ending_def)
  have hs: "run (handler (Skip (Number ending)) s) (environment (Skip (Number ending)) s) = s1"
    using inrange by (simp add: handleSkip_def s1_def)
  have notq: "\<not> quiescent False s s1"
    using elsewhere by (simp add: quiescent_def resetDepsSame_def s1_def ending_def)
  have start: "step (Suc (Suc n)) (Skip (Number ending)) s = settle (Suc n) False s1 s2"
    unfolding step_def Let_def hs by (simp add: notq s2_def)
  have auto1: "autoplayEffect s1 = [Log ''[AUTOPLAY EFFECT]'', Log ''[AUTOPLAY] On ending stop'',
      SetCurrentAudio (Some Ending), SetIsPlaying True]"
    using ne autoplay_ending [of s1] by (simp add: s1_def ending_def)
  have pass: "effectsPass False s s1 = autoplayEffect s1 @ resetEffect s1"
    using elsewhere by (simp add: effectsPass_def autoplayDepsSame_def resetDepsSame_def s1_def ending_def)
  have s2: "s2 = s1\<lparr>narrationAudio := map_option (\<lambda>_. 0) (narrationAudio s),
            greetingAudio := map_option (\<lambda>_. 0) (greetingAudio s),
            endingAudio := map_option (\<lambda>_. 0) (endingAudio s)\<rparr>"
    unfolding s2_def pass auto1
    by (cases "narrationAudio s"; cases "greetingAudio s"; cases "endingAudio s")
       (simp_all add: resetEffect_def s1_def)
  have "quiescent False s1 s2"
    by (simp add: s2 quiescent_def autoplayDepsSame_def resetDepsSame_def)
  then have "settle (Suc n) False s1 s2 = Some s2"
    by simp
  then show ?thesis
    using start by (simp add: s2 s1_def ending_def)
qed

text \<open>Skipping from stop 3 to the ending of the sample tour while narration plays.\<close>

theorem C8_witness:
  "step 2 (Skip (Number 4)) (tourState\<lparr>activeStop := 3, currentAudio := Some Narration, isPlaying := True\<rparr>)
     = Some (tourState\<lparr>activeStop := 4, currentAudio := None, isPlaying := False\<rparr>)"
  using C8_skip_to_ending_plays_nothing
    [where s = "tourState\<lparr>activeStop := 3, currentAudio := Some Narration, isPlaying := True\<rparr>" and n = 0]
  by (simp add: demo numeral_2_eq_2)


text \<open>
  C10, as the code has it. At a real stop that is not yet visited and whose latitude or
  longitude is missing or exactly 0, every run of the autoplay effect takes the path for a
  stop without coordinates: if narration is not the active segment it activates narration
  with \<open>isPlaying = True\<close>, and if narration is already the active segment it leaves the
  state as it is. No distance is computed, and the result does not depend on the user's
  location.
\<close>

theorem C10_falsy_coordinates_fail_open:
  assumes real: "isRealStop (activeStop s) (allStops s)"
    and fresh: "activeStop s \<notin> set (visitedStops s)"
    and falsy: "lat (allStops s ! nat (activeStop s)) \<in> {None, Some 0}
                \<or> lng (allStops s ! nat (activeStop s)) \<in> {None, Some 0}"
  shows "run (autoplayEffect s) s =
           (if currentAudio s = Some Narration then s
            else s\<lparr>currentAudio := Some Narration, isPlaying := True\<rparr>)
    \<and> (\<forall>d. LogDist d \<notin> set (autoplayEffect s))
    \<and> autoplayEffect (s\<lparr>userLocation := loc\<rparr>) = autoplayEffect s"
proof -
  have nc: "\<not> (truthy (lat (allStops s ! nat (activeStop s))) \<and> truthy (lng (allStops s ! nat (activeStop s))))"
    using falsy by (auto simp add: truthy_def)
  have eff: "autoplayEffect s = Log ''[AUTOPLAY EFFECT]'' # Log ''[AUTOPLAY] Stop has no lat/lng'' #
     (if currentAudio s = Some Narration then [] else [SetCurrentAudio (Some Narration), SetIsPlaying True])"
    using real fresh nc by (rule autoplay_nocoords)
  have eff': "autoplayEffect (s\<lparr>userLocation := loc\<rparr>) = Log ''[AUTOPLAY EFFECT]'' # Log ''[AUTOPLAY] Stop has no lat/lng'' #
     (if currentAudio s = Some Narration then [] else [SetCurrentAudio (Some Narration), SetIsPlaying True])"
    using real fresh nc autoplay_nocoords [of "s\<lparr>userLocation := loc\<rparr>"] by simp
  show ?thesis
    unfolding eff' unfolding eff by simp
qed

text \<open>
  The claim itself fails on two inputs at stop 3 of the sample tour, whose latitude is 0:
  when the stop is already visited the effect activates narration with \<open>isPlaying = False\<close>,
  and when narration is the active segment but paused the effect leaves it paused.
\<close>

theorem C10_counterexample:
  "isRealStop 3 (allStops tourState) \<and> lat (allStops tourState ! 3) = Some 0
   \<and> isPlaying (run (autoplayEffect (tourState\<lparr>activeStop := 3, visitedStops := [3], currentAudio := None\<rparr>))
        (tourState\<lparr>activeStop := 3, visitedStops := [3], currentAudio := None\<rparr>)) = False
   \<and> isPlaying (run (autoplayEffect (tourState\<lparr>activeStop := 3, currentAudio := Some Narration\<rparr>))
        (tourState\<lparr>activeStop := 3, currentAudio := Some Narration\<rparr>)) = False"
  by (simp add: tourState_def demoStops_def isRealStop_def autoplayEffect_def truthy_def)

text \<open>Stop 3 of the sample tour, not visited, no active segment, the user standing on it.\<close>

theorem C10_witness:
  "run (autoplayEffect (tourState\<lparr>activeStop := 3, currentAudio := None, userLocation := Some (0, 5)\<rparr>))
       (tourState\<lparr>activeStop := 3, currentAudio := None, userLocation := Some (0, 5)\<rparr>)
     = tourState\<lparr>activeStop := 3, currentAudio := Some Narration, isPlaying := True, userLocation := Some (0, 5)\<rparr>"
  using C10_falsy_coordinates_fail_open
    [of "tourState\<lparr>activeStop := 3, currentAudio := None, userLocation := Some (0, 5)\<rparr>"]
  by (simp add: tourState_def demoStops_def isRealStop_def)

end
